theory Spec2Isabelle
  imports Complex_Main
begin

section \<open>Data model\<close>

text \<open>
  The canvas editor of the repository is one React component, \<^verbatim>\<open>Editor\<close>, whose event
  handlers read and write a handful of state cells (\<^verbatim>\<open>elements\<close>, \<^verbatim>\<open>tool\<close>,
  \<^verbatim>\<open>selectedIds\<close>, \<^verbatim>\<open>slashMenu\<close>, \<^verbatim>\<open>selectionBox\<close>, \<^verbatim>\<open>scale\<close>) and one mutable
  reference, \<^verbatim>\<open>interactionRef\<close>. Each handler is modelled as a function from the state
  before the event to the state after it. The source file holds two copies of the
  component; the model follows the later one (the copy with zoom controls), and the text
  says where the earlier copy differs.

  JavaScript numbers are modelled as \<^typ>\<open>real\<close>: rounding, infinities and NaN are left
  out. An optional field is an \<^typ>\<open>'a option\<close>. The record fields of an element carry
  the prefix \<open>el_\<close>, those of a point \<open>pt_\<close> and those of a rectangle \<open>r_\<close>, since
  \<open>x\<close>, \<open>y\<close> and \<open>id\<close> would otherwise hide variables and the identity function.
\<close>

datatype ElementType = TEXT | RECTANGLE | CIRCLE | PATH | IMAGE | CODE | EXPANDABLE

record Point =
  pt_x :: real
  pt_y :: real

record Style =
  strokeColor :: "string option"
  backgroundColor :: "string option"
  strokeWidth :: "real option"
  fontSize :: "real option"

record CanvasElement =
  el_id :: string
  el_type :: ElementType
  el_x :: real
  el_y :: real
  el_width :: "real option"
  el_height :: "real option"
  el_content :: "string option"
  el_points :: "Point list option"
  el_style :: "Style option"
  el_isExpanded :: "bool option"

datatype Tool = SELECT | TEXT_TOOL | RECT | CIRCLE_TOOL | DRAW | CODE_TOOL | EXPANDABLE_TOOL | ERASER

datatype InteractionMode = IDLE | CREATING | MOVING | BOX_SELECT | ERASING | RESIZING

record Rect =
  r_x :: real
  r_y :: real
  r_width :: real
  r_height :: real

text \<open>The value of \<^verbatim>\<open>interactionRef.current\<close>.\<close>

record Interaction =
  startX :: real
  startY :: real
  currentId :: "string option"
  mode :: InteractionMode
  initialPositions :: "string \<rightharpoonup> Point"
  resizeHandle :: string
  initialBounds :: Rect

record SlashMenu =
  menu_x :: real
  menu_y :: real
  targetId :: string

text \<open>
  The state of the component. \<open>timeouts\<close> is the queue of callbacks that
  \<^verbatim>\<open>setTimeout(..., 50)\<close> has scheduled and that have not run yet; each one is
  determined by the id of the element it will select. \<^verbatim>\<open>selectedIdsRef\<close> mirrors
  \<^verbatim>\<open>selectedIds\<close> after every render, so the model has one field for both.
\<close>

record Editor =
  elements :: "CanvasElement list"
  tool :: Tool
  activeColor :: string
  scale :: real
  selectedIds :: "string set"
  slashMenu :: "SlashMenu option"
  selectionBox :: "Rect option"
  interaction :: Interaction
  timeouts :: "string list"

text \<open>
  What a handler reads from a pointer event: the client coordinates, the button, the
  shift modifier, the bounding rectangle of \<^verbatim>\<open>e.currentTarget\<close> (left and top), and four
  facts about \<^verbatim>\<open>e.target\<close>: whether it is the background
  (\<^verbatim>\<open>target.id === 'canvas-bg' || target.tagName === 'svg'\<close>), whether it is content
  editable, whether its tag is \<^verbatim>\<open>INPUT\<close> or \<^verbatim>\<open>TEXTAREA\<close>, and whether it lies inside a
  \<^verbatim>\<open>[data-drag-handle]\<close> node.
\<close>

record PointerEvent =
  clientX :: real
  clientY :: real
  button :: int
  shiftKey :: bool
  rectLeft :: real
  rectTop :: real
  targetIsBackground :: bool
  targetIsContentEditable :: bool
  targetIsInputTag :: bool
  targetInDragHandle :: bool

text \<open>
  A key event: the key, and whether \<^verbatim>\<open>document.activeElement\<close> is an editing surface
  (content editable, \<^verbatim>\<open>INPUT\<close> or \<^verbatim>\<open>TEXTAREA\<close>).
\<close>

record KeyEvent =
  key :: string
  activeIsEditing :: bool

section \<open>JavaScript idioms\<close>

text \<open>
  \<^verbatim>\<open>a || d\<close> on an optional number: \<open>d\<close> when \<open>a\<close> is undefined or \<open>0\<close>.
  \<^verbatim>\<open>a && b\<close> in a condition: both defined and non-zero.
\<close>

definition truthy :: "real option \<Rightarrow> bool" where
  "truthy a = (case a of None \<Rightarrow> False | Some v \<Rightarrow> v \<noteq> 0)"

definition orElse :: "real option \<Rightarrow> real \<Rightarrow> real" where
  "orElse a d = (case a of None \<Rightarrow> d | Some v \<Rightarrow> if v \<noteq> 0 then v else d)"

text \<open>\<^verbatim>\<open>handle.includes('e')\<close> for a one-character needle.\<close>

definition includesChar :: "string \<Rightarrow> char \<Rightarrow> bool" where
  "includesChar s c = (c \<in> set s)"

section \<open>Helpers of the component\<close>

text \<open>
  \<^verbatim>\<open>getMousePos\<close>. The zoom controls keep \<open>scale\<close> between \<open>0.1\<close> and \<open>3\<close>, so the
  divisor is never zero in the running program.
\<close>

definition getMousePos :: "Editor \<Rightarrow> PointerEvent \<Rightarrow> Point" where
  "getMousePos st e =
     \<lparr> pt_x = (clientX e - rectLeft e) / scale st,
       pt_y = (clientY e - rectTop e) / scale st \<rparr>"

definition deleteElement :: "string \<Rightarrow> Editor \<Rightarrow> Editor" where
  "deleteElement i st =
     st \<lparr> elements := filter (\<lambda>el. el_id el \<noteq> i) (elements st),
          selectedIds := selectedIds st - {i} \<rparr>"

text \<open>The literal every handler but the two drag starts assigns to \<^verbatim>\<open>interactionRef.current\<close>.\<close>

definition session :: "real \<Rightarrow> real \<Rightarrow> string option \<Rightarrow> InteractionMode \<Rightarrow> Interaction" where
  "session x y cid m =
     \<lparr> startX = x, startY = y, currentId = cid, mode = m, initialPositions = Map.empty,
       resizeHandle = [], initialBounds = \<lparr> r_x = 0, r_y = 0, r_width = 0, r_height = 0 \<rparr> \<rparr>"

definition initialInteraction :: Interaction where
  "initialInteraction = session 0 0 None IDLE"

section \<open>Keyboard\<close>

definition handleKeyDown :: "KeyEvent \<Rightarrow> Editor \<Rightarrow> Editor" where
  "handleKeyDown e st =
     (if key e = ''Escape'' then
        st \<lparr> tool := SELECT, selectedIds := {}, slashMenu := None \<rparr>
      else if key e = ''Backspace'' \<or> key e = ''Delete'' then
        (if \<not> activeIsEditing e \<and> selectedIds st \<noteq> {} then
           st \<lparr> elements := filter (\<lambda>el. el_id el \<notin> selectedIds st) (elements st),
                selectedIds := {} \<rparr>
         else st)
      else st)"

section \<open>Window-level pointer handlers\<close>

text \<open>
  The resize arithmetic of \<^verbatim>\<open>handleGlobalMove\<close>, with the source's four variables and
  its four conditional assignments in their order. \<open>minH\<close> is the source's \<^verbatim>\<open>minH\<close>.
\<close>

definition resizeBounds :: "string \<Rightarrow> Rect \<Rightarrow> real \<Rightarrow> real \<Rightarrow> real \<Rightarrow> Rect" where
  "resizeBounds h b minH dx dy =
     (let newX = r_x b; newY = r_y b; newW = r_width b; newH = r_height b;
          newW = (if includesChar h CHR ''e'' then max 20 (r_width b + dx) else newW);
          (newW, newX) =
            (if includesChar h CHR ''w'' then
               (let maxDelta = r_width b - 20; effDx = min dx maxDelta
                in (r_width b - effDx, r_x b + effDx))
             else (newW, newX));
          newH = (if includesChar h CHR ''s'' then max minH (r_height b + dy) else newH);
          (newH, newY) =
            (if includesChar h CHR ''n'' then
               (let maxDelta = r_height b - minH; effDy = min dy maxDelta
                in (r_height b - effDy, r_y b + effDy))
             else (newH, newY))
      in \<lparr> r_x = newX, r_y = newY, r_width = newW, r_height = newH \<rparr>)"

text \<open>
  The minimum height of a resize. \<open>heights i\<close> is the \<^verbatim>\<open>scrollHeight\<close> of the
  \<^verbatim>\<open>[contenteditable]\<close> node inside the registered container of element \<open>i\<close>, and
  \<open>None\<close> when no container is registered or it has no such node. The earlier copy of
  the component has the constant \<open>20\<close> for every element.
\<close>

definition minHeight :: "(string \<Rightarrow> real option) \<Rightarrow> CanvasElement \<Rightarrow> real" where
  "minHeight heights el =
     (if el_type el = TEXT then (case heights (el_id el) of Some sh \<Rightarrow> sh + 16 | None \<Rightarrow> 20)
      else 20)"

definition moveElement :: "(string \<rightharpoonup> Point) \<Rightarrow> real \<Rightarrow> real \<Rightarrow> CanvasElement \<Rightarrow> CanvasElement" where
  "moveElement ips dx dy el =
     (case ips (el_id el) of
        Some init \<Rightarrow> el \<lparr> el_x := pt_x init + dx, el_y := pt_y init + dy \<rparr>
      | None \<Rightarrow> el)"

definition resizeElement ::
  "(string \<Rightarrow> real option) \<Rightarrow> Interaction \<Rightarrow> real \<Rightarrow> real \<Rightarrow> CanvasElement \<Rightarrow> CanvasElement" where
  "resizeElement heights ia dx dy el =
     (if Some (el_id el) \<noteq> currentId ia then el
      else
        (let b = resizeBounds (resizeHandle ia) (initialBounds ia) (minHeight heights el) dx dy
         in el \<lparr> el_x := r_x b, el_y := r_y b,
                 el_width := Some (r_width b), el_height := Some (r_height b) \<rparr>))"

text \<open>\<^verbatim>\<open>mode === 'RESIZING' && currentId\<close>: the id is set and is not the empty string.\<close>

definition handleGlobalMove :: "(string \<Rightarrow> real option) \<Rightarrow> PointerEvent \<Rightarrow> Editor \<Rightarrow> Editor" where
  "handleGlobalMove heights e st =
     (let ia = interaction st in
      if mode ia = IDLE then st
      else if mode ia = MOVING then
        (let dx = (clientX e - startX ia) / scale st;
             dy = (clientY e - startY ia) / scale st
         in st \<lparr> elements := map (moveElement (initialPositions ia) dx dy) (elements st) \<rparr>)
      else if mode ia = RESIZING \<and> currentId ia \<noteq> None \<and> currentId ia \<noteq> Some [] then
        (let dx = (clientX e - startX ia) / scale st;
             dy = (clientY e - startY ia) / scale st
         in st \<lparr> elements := map (resizeElement heights ia dx dy) (elements st) \<rparr>)
      else st)"

definition handleGlobalUp :: "Editor \<Rightarrow> Editor" where
  "handleGlobalUp st =
     (let st1 = (if mode (interaction st) = BOX_SELECT then st \<lparr> selectionBox := None \<rparr> else st)
      in st1 \<lparr> interaction := (interaction st1) \<lparr> mode := IDLE \<rparr> \<rparr>)"

section \<open>Starting a resize\<close>

text \<open>
  \<^verbatim>\<open>handleResizeStart\<close>. \<open>rects i\<close> is the width and height of the bounding rectangle of
  the registered container of element \<open>i\<close>, \<open>None\<close> when none is registered (the source
  then takes width and height \<open>0\<close>).
\<close>

definition handleResizeStart ::
  "(string \<Rightarrow> (real \<times> real) option) \<Rightarrow> PointerEvent \<Rightarrow> string \<Rightarrow> string \<Rightarrow> Editor \<Rightarrow> Editor" where
  "handleResizeStart rects e i handle st =
     (case find (\<lambda>x. el_id x = i) (elements st) of
        None \<Rightarrow> st
      | Some el \<Rightarrow>
          (let (domW, domH) = (case rects i of Some wh \<Rightarrow> wh | None \<Rightarrow> (0, 0));
               currentW = orElse (el_width el) (domW / scale st);
               currentH = orElse (el_height el) (domH / scale st)
           in st \<lparr> interaction :=
                \<lparr> startX = clientX e, startY = clientY e, currentId = Some i, mode = RESIZING,
                  initialPositions = Map.empty, resizeHandle = handle,
                  initialBounds = \<lparr> r_x = el_x el, r_y = el_y el,
                                    r_width = currentW, r_height = currentH \<rparr> \<rparr> \<rparr>))"

section \<open>Pointer handlers of the canvas container\<close>

text \<open>The element literals of \<^verbatim>\<open>handleContainerPointerDown\<close>; absent fields are \<open>None\<close>.\<close>

definition blankElement :: "string \<Rightarrow> ElementType \<Rightarrow> real \<Rightarrow> real \<Rightarrow> CanvasElement" where
  "blankElement i t x y =
     \<lparr> el_id = i, el_type = t, el_x = x, el_y = y, el_width = None, el_height = None,
       el_content = None, el_points = None, el_style = None, el_isExpanded = None \<rparr>"

definition newCode :: "string \<Rightarrow> real \<Rightarrow> real \<Rightarrow> CanvasElement" where
  "newCode i x y =
     (blankElement i CODE x y)
       \<lparr> el_content := Some ''// Code block'', el_width := Some 300, el_height := Some 150 \<rparr>"

definition newExpandable :: "string \<Rightarrow> real \<Rightarrow> real \<Rightarrow> CanvasElement" where
  "newExpandable i x y =
     (blankElement i EXPANDABLE x y)
       \<lparr> el_content := Some ''Toggle Section'', el_isExpanded := Some True,
         el_width := Some 300 \<rparr>"

text \<open>The earlier copy of the component creates the text element without a width.\<close>

definition newText :: "string \<Rightarrow> real \<Rightarrow> real \<Rightarrow> CanvasElement" where
  "newText i x y = (blankElement i TEXT x y) \<lparr> el_content := Some [], el_width := Some 400 \<rparr>"

definition newPath :: "string \<Rightarrow> string \<Rightarrow> real \<Rightarrow> real \<Rightarrow> CanvasElement" where
  "newPath i color x y =
     (blankElement i PATH 0 0)
       \<lparr> el_points := Some [\<lparr> pt_x = x, pt_y = y \<rparr>],
         el_style := Some \<lparr> strokeColor = Some color, backgroundColor = None,
                            strokeWidth = Some 2, fontSize = None \<rparr> \<rparr>"

definition newShape :: "string \<Rightarrow> Tool \<Rightarrow> string \<Rightarrow> real \<Rightarrow> real \<Rightarrow> CanvasElement" where
  "newShape i t color x y =
     (blankElement i (if t = RECT then RECTANGLE else CIRCLE) x y)
       \<lparr> el_width := Some 0, el_height := Some 0,
         el_style := Some \<lparr> strokeColor = Some color, backgroundColor = Some ''transparent'',
                            strokeWidth = Some 2, fontSize = None \<rparr> \<rparr>"

text \<open>
  \<^verbatim>\<open>handleContainerPointerDown\<close>. \<open>newId\<close> is the value \<^verbatim>\<open>generateId()\<close> returns in this
  call. The handler does not select the element it places: it schedules a callback, which
  \<open>runTimeout\<close> below models. In the earlier copy of the component the mode is
  \<open>CREATING\<close> for every tool that reaches the assignment, and the button is not looked at.
\<close>

definition handleContainerPointerDown :: "string \<Rightarrow> PointerEvent \<Rightarrow> Editor \<Rightarrow> Editor" where
  "handleContainerPointerDown newId e st =
     (if tool st \<noteq> SELECT \<and> tool st \<noteq> ERASER \<and> button e \<noteq> 0 then st
      else
        (let p = getMousePos st e; x = pt_x p; y = pt_y p in
         if tool st = SELECT then
           (if targetIsBackground e then
              st \<lparr> interaction := session x y None BOX_SELECT,
                   selectionBox := Some \<lparr> r_x = x, r_y = y, r_width = 0, r_height = 0 \<rparr>,
                   selectedIds := (if \<not> shiftKey e then {} else selectedIds st),
                   slashMenu := None \<rparr>
            else st)
         else if tool st = ERASER then st \<lparr> interaction := session x y None ERASING \<rparr>
         else if tool st = TEXT_TOOL \<and> targetIsContentEditable e then st
         else
           (let isDragCreation = (tool st \<in> {RECT, CIRCLE_TOOL, DRAW});
                ia = session x y (Some newId) (if isDragCreation then CREATING else IDLE)
            in if tool st \<in> {TEXT_TOOL, CODE_TOOL, EXPANDABLE_TOOL} then
                 (let newEl = (if tool st = CODE_TOOL then newCode newId x y
                               else if tool st = EXPANDABLE_TOOL then newExpandable newId x y
                               else newText newId x y)
                  in st \<lparr> interaction := ia, elements := elements st @ [newEl],
                          timeouts := timeouts st @ [el_id newEl] \<rparr>)
               else
                 (let newEl = (if tool st = DRAW then newPath newId (activeColor st) x y
                               else newShape newId (tool st) (activeColor st) x y)
                  in st \<lparr> interaction := ia, elements := elements st @ [newEl] \<rparr>))))"

text \<open>
  The callback of \<^verbatim>\<open>setTimeout\<close>: \<^verbatim>\<open>setSelectedIds(new Set([newEl.id]))\<close>. (It also moves
  the input focus, which is not part of the state.) The oldest pending callback runs.
\<close>

definition runTimeout :: "Editor \<Rightarrow> Editor" where
  "runTimeout st =
     (case timeouts st of
        [] \<Rightarrow> st
      | i # rest \<Rightarrow> st \<lparr> selectedIds := {i}, timeouts := rest \<rparr>)"

text \<open>The first \<open>n\<close> pending callbacks run, oldest first.\<close>

definition runTimeouts :: "nat \<Rightarrow> Editor \<Rightarrow> Editor" where
  "runTimeouts n st = (runTimeout ^^ n) st"

text \<open>The update of the element under creation in \<^verbatim>\<open>handleContainerPointerMove\<close>.\<close>

definition createStep :: "Interaction \<Rightarrow> real \<Rightarrow> real \<Rightarrow> CanvasElement \<Rightarrow> CanvasElement" where
  "createStep ia x y el =
     (if Some (el_id el) \<noteq> currentId ia then el
      else if el_type el = PATH then
        el \<lparr> el_points :=
               Some ((case el_points el of Some ps \<Rightarrow> ps | None \<Rightarrow> []) @ [\<lparr> pt_x = x, pt_y = y \<rparr>]) \<rparr>
      else
        (let width = x - startX ia; height = y - startY ia
         in el \<lparr> el_width := Some \<bar>width\<bar>, el_height := Some \<bar>height\<bar>,
                 el_x := (if width < 0 then x else startX ia),
                 el_y := (if height < 0 then y else startY ia) \<rparr>))"

text \<open>
  The predicate the eraser passes to \<^verbatim>\<open>elements.find\<close>. For a path the source takes
  \<^verbatim>\<open>Math.min(...xs)\<close> and \<^verbatim>\<open>Math.max(...xs)\<close>; on an empty point list these are
  \<open>+Infinity\<close> and \<open>-Infinity\<close>, and no pointer position passes the test.
\<close>

definition minOf :: "real \<Rightarrow> real list \<Rightarrow> real" where
  "minOf v vs = fold min vs v"

definition maxOf :: "real \<Rightarrow> real list \<Rightarrow> real" where
  "maxOf v vs = fold max vs v"

definition eraserHit :: "real \<Rightarrow> real \<Rightarrow> CanvasElement \<Rightarrow> bool" where
  "eraserHit x y el =
     (if truthy (el_width el) \<and> truthy (el_height el) then
        x \<ge> el_x el \<and> x \<le> el_x el + the (el_width el) \<and>
        y \<ge> el_y el \<and> y \<le> el_y el + the (el_height el)
      else if el_type el = PATH \<and> el_points el \<noteq> None then
        (case the (el_points el) of
           [] \<Rightarrow> False
         | p # ps \<Rightarrow>
             (let minX = minOf (pt_x p) (map pt_x ps) + el_x el;
                  maxX = maxOf (pt_x p) (map pt_x ps) + el_x el;
                  minY = minOf (pt_y p) (map pt_y ps) + el_y el;
                  maxY = maxOf (pt_y p) (map pt_y ps) + el_y el
              in x \<ge> minX \<and> x \<le> maxX \<and> y \<ge> minY \<and> y \<le> maxY))
      else if el_type el = TEXT then
        x \<ge> el_x el \<and> x \<le> el_x el + 300 \<and> y \<ge> el_y el \<and> y \<le> el_y el + 50
      else False)"

definition handleContainerPointerMove :: "PointerEvent \<Rightarrow> Editor \<Rightarrow> Editor" where
  "handleContainerPointerMove e st =
     (let ia = interaction st; p = getMousePos st e; x = pt_x p; y = pt_y p in
      if mode ia = CREATING then
        st \<lparr> elements := map (createStep ia x y) (elements st) \<rparr>
      else if mode ia = BOX_SELECT then
        (let w = x - startX ia; h = y - startY ia
         in st \<lparr> selectionBox :=
                   Some \<lparr> r_x = (if w < 0 then x else startX ia),
                          r_y = (if h < 0 then y else startY ia),
                          r_width = \<bar>w\<bar>, r_height = \<bar>h\<bar> \<rparr> \<rparr>)
      else if mode ia = ERASING then
        (case find (eraserHit x y) (elements st) of
           Some hit \<Rightarrow> deleteElement (el_id hit) st
         | None \<Rightarrow> st)
      else st)"

text \<open>The predicate of the filter in \<^verbatim>\<open>handleContainerPointerUp\<close>.\<close>

definition boxHit :: "Rect \<Rightarrow> CanvasElement \<Rightarrow> bool" where
  "boxHit sb el =
     (let elX = el_x el; elY = el_y el;
          elW = orElse (el_width el) 10; elH = orElse (el_height el) 10
      in elX < r_x sb + r_width sb \<and> elX + elW > r_x sb \<and>
         elY < r_y sb + r_height sb \<and> elY + elH > r_y sb)"

definition handleContainerPointerUp :: "Editor \<Rightarrow> Editor" where
  "handleContainerPointerUp st =
     (let st1 =
        (if mode (interaction st) = BOX_SELECT \<and> selectionBox st \<noteq> None then
           (let sb = the (selectionBox st);
                hits = filter (boxHit sb) (elements st)
            in st \<lparr> selectedIds := selectedIds st \<union> set (map el_id hits),
                    selectionBox := None \<rparr>)
         else st)
      in st1 \<lparr> interaction := (interaction st1) \<lparr> mode := IDLE \<rparr> \<rparr>)"

section \<open>Pointer-down on an element\<close>

text \<open>
  The snapshot loop of \<^verbatim>\<open>handleElementPointerDown\<close>: \<^verbatim>\<open>elements.forEach\<close> writes one
  entry for each element whose id is in the selection being dragged.
\<close>

definition snapshot :: "string set \<Rightarrow> CanvasElement list \<Rightarrow> (string \<rightharpoonup> Point)" where
  "snapshot sel els =
     foldl (\<lambda>m el. if el_id el \<in> sel then m(el_id el \<mapsto> \<lparr> pt_x = el_x el, pt_y = el_y el \<rparr>) else m)
       Map.empty els"

definition elementStrokeColor :: "CanvasElement option \<Rightarrow> string option" where
  "elementStrokeColor el =
     (case el of
        None \<Rightarrow> None
      | Some x \<Rightarrow> (case el_style x of None \<Rightarrow> None | Some s \<Rightarrow> strokeColor s))"

definition handleElementPointerDown :: "PointerEvent \<Rightarrow> string \<Rightarrow> Editor \<Rightarrow> Editor" where
  "handleElementPointerDown e i st =
     (if tool st = ERASER then deleteElement i st
      else
        (let isInput = (targetIsInputTag e \<or> targetIsContentEditable e);
             dragHandle = targetInDragHandle e
         in if tool st = SELECT then
              (let element = find (\<lambda>el. el_id el = i) (elements st);
                   st1 = (case elementStrokeColor element of
                            Some c \<Rightarrow> if c \<noteq> [] then st \<lparr> activeColor := c \<rparr> else st
                          | None \<Rightarrow> st);
                   st2 = (if shiftKey e then
                            st1 \<lparr> selectedIds :=
                                   (if i \<in> selectedIds st then selectedIds st - {i}
                                    else insert i (selectedIds st)) \<rparr>
                          else if i \<notin> selectedIds st then st1 \<lparr> selectedIds := {i} \<rparr>
                          else st1)
               in if dragHandle \<or> \<not> isInput then
                    (let currentSelection =
                           (if shiftKey e then selectedIds st
                            else if i \<in> selectedIds st then selectedIds st else {i});
                         initPos = snapshot currentSelection (elements st)
                     in st2 \<lparr> interaction :=
                              \<lparr> startX = clientX e, startY = clientY e, currentId = Some i,
                                mode = MOVING, initialPositions = initPos, resizeHandle = [],
                                initialBounds = \<lparr> r_x = 0, r_y = 0, r_width = 0, r_height = 0 \<rparr> \<rparr> \<rparr>)
                  else st2)
            else st))"

section \<open>Gestures\<close>

text \<open>
  A pointer move inside the container reaches the container's handler and then, as the
  event bubbles, the listener on the window.
\<close>

definition pointerMove :: "(string \<Rightarrow> real option) \<Rightarrow> PointerEvent \<Rightarrow> Editor \<Rightarrow> Editor" where
  "pointerMove heights e st = handleGlobalMove heights e (handleContainerPointerMove e st)"

definition pointerMoves :: "(string \<Rightarrow> real option) \<Rightarrow> PointerEvent list \<Rightarrow> Editor \<Rightarrow> Editor" where
  "pointerMoves heights es st = foldl (\<lambda>s e. pointerMove heights e s) st es"

text \<open>A press on the container followed by a sequence of moves.\<close>

definition creatingDrag ::
  "(string \<Rightarrow> real option) \<Rightarrow> string \<Rightarrow> PointerEvent \<Rightarrow> PointerEvent list \<Rightarrow> Editor \<Rightarrow> Editor" where
  "creatingDrag heights newId e0 es st =
     pointerMoves heights es (handleContainerPointerDown newId e0 st)"

text \<open>
  The shape that a drag from the anchor \<open>a\<close> to the pointer position \<open>p\<close> is to
  produce: the new shape of the tool, with the absolute differences as its size and the
  minima as its origin.
\<close>

definition draggedShape :: "Editor \<Rightarrow> string \<Rightarrow> Point \<Rightarrow> Point \<Rightarrow> CanvasElement" where
  "draggedShape st nid a p =
     (newShape nid (tool st) (activeColor st) (pt_x a) (pt_y a))
       \<lparr> el_width := Some \<bar>pt_x p - pt_x a\<bar>, el_height := Some \<bar>pt_y p - pt_y a\<bar>,
         el_x := min (pt_x p) (pt_x a), el_y := min (pt_y p) (pt_y a) \<rparr>"

text \<open>
  The element a click with the text, code or section tool is to place at the canvas
  point \<open>p\<close>: the default element of that tool.
\<close>

definition placedElement :: "Tool \<Rightarrow> string \<Rightarrow> Point \<Rightarrow> CanvasElement" where
  "placedElement t nid p =
     (if t = CODE_TOOL then newCode nid (pt_x p) (pt_y p)
      else if t = EXPANDABLE_TOOL then newExpandable nid (pt_x p) (pt_y p)
      else newText nid (pt_x p) (pt_y p))"

section \<open>The earlier copy of the pointer-down handler\<close>

text \<open>
  The first copy of the component in the source file has no zoom and no colour picker.
  Its \<^verbatim>\<open>handleContainerPointerDown\<close> does not look at the button, subtracts the origin of
  the container without dividing, sets the mode \<open>CREATING\<close> for every tool that creates
  an element, creates a text element without a width, and draws in \<open>#000\<close>. Its other
  handlers are those above at scale \<open>1\<close>, with the minimum height \<open>20\<close> throughout.
\<close>

definition handleContainerPointerDownEarlier :: "string \<Rightarrow> PointerEvent \<Rightarrow> Editor \<Rightarrow> Editor" where
  "handleContainerPointerDownEarlier newId e st =
     (let x = clientX e - rectLeft e; y = clientY e - rectTop e in
      if tool st = SELECT then
        (if targetIsBackground e then
           st \<lparr> interaction := session x y None BOX_SELECT,
                selectionBox := Some \<lparr> r_x = x, r_y = y, r_width = 0, r_height = 0 \<rparr>,
                selectedIds := (if \<not> shiftKey e then {} else selectedIds st),
                slashMenu := None \<rparr>
         else st)
      else if tool st = ERASER then st \<lparr> interaction := session x y None ERASING \<rparr>
      else if tool st = TEXT_TOOL \<and> targetIsContentEditable e then st
      else
        (let ia = session x y (Some newId) CREATING
         in if tool st \<in> {TEXT_TOOL, CODE_TOOL, EXPANDABLE_TOOL} then
              (let newEl = (if tool st = CODE_TOOL then newCode newId x y
                            else if tool st = EXPANDABLE_TOOL then newExpandable newId x y
                            else (blankElement newId TEXT x y) \<lparr> el_content := Some [] \<rparr>)
               in st \<lparr> interaction := ia, elements := elements st @ [newEl],
                       timeouts := timeouts st @ [el_id newEl] \<rparr>)
            else
              (let newEl = (if tool st = DRAW then newPath newId ''#000'' x y
                            else newShape newId (tool st) ''#000'' x y)
               in st \<lparr> interaction := ia, elements := elements st @ [newEl] \<rparr>)))"

section \<open>The hit region of the eraser, as the specification words it\<close>

text \<open>
  The region in which a pointer position erases an element, written from the
  specification and not from the code: the box of width and height when both are there
  and not zero; otherwise, for a path, the bounding box of its points moved by the origin;
  otherwise, for a text element, a box of \<open>300 \<times> 50\<close> at the origin; otherwise no
  region. A region is a rectangle with its border.
\<close>

definition fallbackRegion :: "CanvasElement \<Rightarrow> Rect option" where
  "fallbackRegion el =
     (if el_type el = PATH then
        (case el_points el of
           None \<Rightarrow> None
         | Some [] \<Rightarrow> None
         | Some (p # ps) \<Rightarrow>
             Some \<lparr> r_x = Min (set (map pt_x (p # ps))) + el_x el,
                    r_y = Min (set (map pt_y (p # ps))) + el_y el,
                    r_width = Max (set (map pt_x (p # ps))) - Min (set (map pt_x (p # ps))),
                    r_height = Max (set (map pt_y (p # ps))) - Min (set (map pt_y (p # ps))) \<rparr>)
      else if el_type el = TEXT then
        Some \<lparr> r_x = el_x el, r_y = el_y el, r_width = 300, r_height = 50 \<rparr>
      else None)"

definition hitRegion :: "CanvasElement \<Rightarrow> Rect option" where
  "hitRegion el =
     (case (el_width el, el_height el) of
        (Some w, Some h) \<Rightarrow>
          if w \<noteq> 0 \<and> h \<noteq> 0
          then Some \<lparr> r_x = el_x el, r_y = el_y el, r_width = w, r_height = h \<rparr>
          else fallbackRegion el
      | _ \<Rightarrow> fallbackRegion el)"

definition inRect :: "Rect \<Rightarrow> real \<Rightarrow> real \<Rightarrow> bool" where
  "inRect r x y = (r_x r \<le> x \<and> x \<le> r_x r + r_width r \<and> r_y r \<le> y \<and> y \<le> r_y r + r_height r)"

section \<open>The initial state and some concrete sessions\<close>

text \<open>
  The state of a freshly mounted component on an empty page, and a primary-button pointer
  event on the background with no modifier, in a container whose rectangle starts at the
  origin of the screen.
\<close>

definition emptyEditor :: Editor where
  "emptyEditor =
     \<lparr> elements = [], tool = SELECT, activeColor = ''#000000'', scale = 1, selectedIds = {},
       slashMenu = None, selectionBox = None, interaction = initialInteraction, timeouts = [] \<rparr>"

definition pointerAt :: "real \<Rightarrow> real \<Rightarrow> PointerEvent" where
  "pointerAt cx cy =
     \<lparr> clientX = cx, clientY = cy, button = 0, shiftKey = False, rectLeft = 0, rectTop = 0,
       targetIsBackground = True, targetIsContentEditable = False, targetIsInputTag = False,
       targetInDragHandle = False \<rparr>"

text \<open>A code block whose east handle has just been pressed.\<close>

definition codeResizing :: Editor where
  "codeResizing =
     handleResizeStart (\<lambda>i. None) (pointerAt 0 0) ''c'' ''e''
       (emptyEditor \<lparr> elements := [newCode ''c'' 10 10], selectedIds := {''c''} \<rparr>)"

text \<open>
  A text block of height \<open>50\<close> and \<open>200\<close> whose content has grown to a scroll height of
  \<open>100\<close>, with its east and its north-west handle pressed.
\<close>

definition grownHeights :: "string \<Rightarrow> real option" where
  "grownHeights i = (if i = ''t'' then Some 100 else None)"

definition textResizing :: Editor where
  "textResizing =
     handleResizeStart (\<lambda>i. None) (pointerAt 0 0) ''t'' ''e''
       (emptyEditor \<lparr> elements := [(newText ''t'' 0 0) \<lparr> el_height := Some 50 \<rparr>],
                      selectedIds := {''t''} \<rparr>)"

definition textResizingNW :: Editor where
  "textResizingNW =
     handleResizeStart (\<lambda>i. None) (pointerAt 0 0) ''t'' ''nw''
       (emptyEditor \<lparr> elements := [(newText ''t'' 0 0) \<lparr> el_height := Some 200 \<rparr>],
                      selectedIds := {''t''} \<rparr>)"

text \<open>The Escape key.\<close>

definition escapeKey :: KeyEvent where
  "escapeKey = \<lparr> key = ''Escape'', activeIsEditing = False \<rparr>"

text \<open>A square of side \<open>20\<close> at \<open>(10, 10)\<close>, with id \<open>a\<close>.\<close>

definition squareA :: CanvasElement where
  "squareA = (newShape ''a'' RECT ''#000000'' 10 10) \<lparr> el_width := Some 20, el_height := Some 20 \<rparr>"

text \<open>A box selection in progress over that square: press on the background at \<open>(0, 0)\<close>, move to \<open>(60, 60)\<close>.\<close>

definition boxDragging :: Editor where
  "boxDragging =
     handleContainerPointerMove (pointerAt 60 60)
       (handleContainerPointerDown ''n'' (pointerAt 0 0) (emptyEditor \<lparr> elements := [squareA] \<rparr>))"

text \<open>Two selected squares, \<open>a\<close> and \<open>b\<close>.\<close>

definition twoSquares :: Editor where
  "twoSquares =
     emptyEditor \<lparr> elements := [squareA, squareA \<lparr> el_id := ''b'', el_x := 100 \<rparr>],
                    selectedIds := {''a'', ''b''} \<rparr>"

text \<open>The rectangle tool at zoom \<open>2\<close>, and a pointer event in a container whose rectangle starts at \<open>(100, 50)\<close>.\<close>

definition zoomedRectEditor :: Editor where
  "zoomedRectEditor = emptyEditor \<lparr> tool := RECT, scale := 2 \<rparr>"

definition offsetPointer :: PointerEvent where
  "offsetPointer = (pointerAt 300 250) \<lparr> rectLeft := 100, rectTop := 50 \<rparr>"

text \<open>A rectangle of width and height \<open>0\<close> at \<open>(50, 50)\<close>, with id \<open>z\<close>.\<close>

definition pointA :: CanvasElement where
  "pointA = blankElement ''z'' RECTANGLE 50 50 \<lparr> el_width := Some 0, el_height := Some 0 \<rparr>"

text \<open>The square \<open>a\<close>, the zero-size rectangle \<open>z\<close> and a selected square \<open>f\<close> far away.\<close>

definition threeShapes :: Editor where
  "threeShapes =
     emptyEditor \<lparr> elements := [squareA, pointA, squareA \<lparr> el_id := ''f'', el_x := 200, el_y := 200 \<rparr>],
                    selectedIds := {''f''} \<rparr>"

text \<open>A box selection over them from \<open>(0, 0)\<close> to \<open>(60, 60)\<close>, with or without shift.\<close>

definition boxGesture :: "bool \<Rightarrow> Editor" where
  "boxGesture shift =
     handleContainerPointerUp
       (handleContainerPointerMove (pointerAt 60 60)
          (handleContainerPointerDown ''n'' ((pointerAt 0 0) \<lparr> shiftKey := shift \<rparr>) threeShapes))"

text \<open>Two selected squares, \<open>a\<close> at \<open>(10, 10)\<close> and \<open>b\<close> at \<open>(100, 40)\<close>, and a press on \<open>a\<close>
  at the client position \<open>(15, 15)\<close>.\<close>

definition dragStartOnA :: Editor where
  "dragStartOnA =
     handleElementPointerDown ((pointerAt 15 15) \<lparr> targetIsBackground := False \<rparr>) ''a''
       (emptyEditor \<lparr> elements := [squareA, squareA \<lparr> el_id := ''b'', el_x := 100, el_y := 40 \<rparr>],
                      selectedIds := {''a'', ''b''} \<rparr>)"

text \<open>The rectangle tool on an empty page: press at \<open>(50, 50)\<close>, then the given moves.\<close>

definition rectDrag :: "PointerEvent list \<Rightarrow> Editor" where
  "rectDrag es = creatingDrag (\<lambda>i. None) ''r'' (pointerAt 50 50) es (emptyEditor \<lparr> tool := RECT \<rparr>)"

text \<open>The two selected squares with the text tool active.\<close>

definition textPlacing :: Editor where
  "textPlacing = twoSquares \<lparr> tool := TEXT_TOOL \<rparr>"

text \<open>The same page with the code tool active and one callback still pending.\<close>

definition codePlacing :: Editor where
  "codePlacing = twoSquares \<lparr> tool := CODE_TOOL, timeouts := [''m''] \<rparr>"

text \<open>The eraser pressed on the background of a page with the zero-size rectangle \<open>z\<close> and two
  squares \<open>a\<close> and \<open>b\<close> lying on top of each other, \<open>a\<close> selected.\<close>

definition erasing :: Editor where
  "erasing =
     handleContainerPointerDown ''n'' (pointerAt 0 0)
       (emptyEditor \<lparr> tool := ERASER,
                      elements := [pointA, squareA, squareA \<lparr> el_id := ''b'' \<rparr>],
                      selectedIds := {''a''} \<rparr>)"

section \<open>The resize calculator\<close>

lemma resizeBounds_x_width:
  "\<not> includesChar h CHR ''e'' \<Longrightarrow> \<not> includesChar h CHR ''w'' \<Longrightarrow>
   r_x (resizeBounds h b minH dx dy) = r_x b \<and> r_width (resizeBounds h b minH dx dy) = r_width b"
  by (simp add: resizeBounds_def Let_def split: prod.splits)

lemma resizeBounds_y_height:
  "\<not> includesChar h CHR ''n'' \<Longrightarrow> \<not> includesChar h CHR ''s'' \<Longrightarrow>
   r_y (resizeBounds h b minH dx dy) = r_y b \<and> r_height (resizeBounds h b minH dx dy) = r_height b"
  by (simp add: resizeBounds_def Let_def split: prod.splits)

lemma resizeBounds_min_width:
  "includesChar h CHR ''e'' \<or> includesChar h CHR ''w'' \<Longrightarrow>
   20 \<le> r_width (resizeBounds h b minH dx dy)"
  by (auto simp add: resizeBounds_def Let_def split: prod.splits)

lemma resizeBounds_min_height:
  "includesChar h CHR ''s'' \<or> includesChar h CHR ''n'' \<Longrightarrow>
   minH \<le> r_height (resizeBounds h b minH dx dy)"
  by (auto simp add: resizeBounds_def Let_def split: prod.splits)

text \<open>With a west handle the east edge stays where it was.\<close>

lemma resizeBounds_east_edge:
  "includesChar h CHR ''w'' \<Longrightarrow>
   r_x (resizeBounds h b minH dx dy) + r_width (resizeBounds h b minH dx dy) = r_x b + r_width b"
  by (auto simp add: resizeBounds_def Let_def split: prod.splits)

lemma handleGlobalMove_resizing:
  "mode (interaction st) = RESIZING \<Longrightarrow> currentId (interaction st) = Some i \<Longrightarrow> i \<noteq> [] \<Longrightarrow>
   elements (handleGlobalMove heights e st) =
     map (resizeElement heights (interaction st)
            ((clientX e - startX (interaction st)) / scale st)
            ((clientY e - startY (interaction st)) / scale st)) (elements st)"
  by (simp add: handleGlobalMove_def Let_def)

lemma codeResizing_eq:
  "codeResizing =
     emptyEditor \<lparr> elements := [newCode ''c'' 10 10], selectedIds := {''c''},
       interaction := \<lparr> startX = 0, startY = 0, currentId = Some ''c'', mode = RESIZING,
                        initialPositions = Map.empty, resizeHandle = ''e'',
                        initialBounds = \<lparr> r_x = 10, r_y = 10, r_width = 300, r_height = 150 \<rparr> \<rparr> \<rparr>"
  by (simp add: codeResizing_def handleResizeStart_def emptyEditor_def newCode_def
      blankElement_def pointerAt_def orElse_def)

lemma textResizing_eq:
  "textResizing =
     emptyEditor \<lparr> elements := [(newText ''t'' 0 0) \<lparr> el_height := Some 50 \<rparr>],
       selectedIds := {''t''},
       interaction := \<lparr> startX = 0, startY = 0, currentId = Some ''t'', mode = RESIZING,
                        initialPositions = Map.empty, resizeHandle = ''e'',
                        initialBounds = \<lparr> r_x = 0, r_y = 0, r_width = 400, r_height = 50 \<rparr> \<rparr> \<rparr>"
  by (simp add: textResizing_def handleResizeStart_def emptyEditor_def newText_def
      blankElement_def pointerAt_def orElse_def)

lemma textResizingNW_eq:
  "textResizingNW =
     emptyEditor \<lparr> elements := [(newText ''t'' 0 0) \<lparr> el_height := Some 200 \<rparr>],
       selectedIds := {''t''},
       interaction := \<lparr> startX = 0, startY = 0, currentId = Some ''t'', mode = RESIZING,
                        initialPositions = Map.empty, resizeHandle = ''nw'',
                        initialBounds = \<lparr> r_x = 0, r_y = 0, r_width = 400, r_height = 200 \<rparr> \<rparr> \<rparr>"
  by (simp add: textResizingNW_def handleResizeStart_def emptyEditor_def newText_def
      blankElement_def pointerAt_def orElse_def)

text \<open>
  Claim C2. In one resize step (a pointer move in mode \<open>RESIZING\<close>) the element being
  resized takes its new geometry from the handle, the bounds snapshot and the pointer
  delta. If the handle has neither \<open>e\<close> nor \<open>w\<close>, its \<open>x\<close> and \<open>width\<close> are those of
  the snapshot; if it has neither \<open>n\<close> nor \<open>s\<close>, its \<open>y\<close> and \<open>height\<close> are those of
  the snapshot. With the handle \<open>e\<close>, \<open>x\<close>, \<open>y\<close> and \<open>height\<close> are those of the snapshot.
\<close>

theorem resize_anchor_preservation:
  assumes "mode (interaction st) = RESIZING"
    and "currentId (interaction st) = Some i" and "i \<noteq> []"
    and "el \<in> set (elements (handleGlobalMove heights e st))" and "el_id el = i"
  shows "(\<not> includesChar (resizeHandle (interaction st)) CHR ''e'' \<and>
          \<not> includesChar (resizeHandle (interaction st)) CHR ''w'' \<longrightarrow>
            el_x el = r_x (initialBounds (interaction st)) \<and>
            el_width el = Some (r_width (initialBounds (interaction st)))) \<and>
         (\<not> includesChar (resizeHandle (interaction st)) CHR ''n'' \<and>
          \<not> includesChar (resizeHandle (interaction st)) CHR ''s'' \<longrightarrow>
            el_y el = r_y (initialBounds (interaction st)) \<and>
            el_height el = Some (r_height (initialBounds (interaction st)))) \<and>
         (resizeHandle (interaction st) = ''e'' \<longrightarrow>
            el_x el = r_x (initialBounds (interaction st)) \<and>
            el_y el = r_y (initialBounds (interaction st)) \<and>
            el_height el = Some (r_height (initialBounds (interaction st))))"
proof -
  let ?ia = "interaction st"
  let ?dx = "(clientX e - startX ?ia) / scale st"
  let ?dy = "(clientY e - startY ?ia) / scale st"
  from assms(1-3) have els: "elements (handleGlobalMove heights e st) =
      map (resizeElement heights ?ia ?dx ?dy) (elements st)"
    by (rule handleGlobalMove_resizing)
  with assms(4) obtain el0 where el0: "el0 \<in> set (elements st)"
    and el: "el = resizeElement heights ?ia ?dx ?dy el0" by auto
  have same_id: "el_id (resizeElement heights ?ia ?dx ?dy el0) = el_id el0"
    by (simp add: resizeElement_def Let_def)
  with el assms(2,5) have cur: "Some (el_id el0) = currentId ?ia" by simp
  define b where
    "b = resizeBounds (resizeHandle ?ia) (initialBounds ?ia) (minHeight heights el0) ?dx ?dy"
  from cur el have fields: "el_x el = r_x b" "el_y el = r_y b"
      "el_width el = Some (r_width b)" "el_height el = Some (r_height b)"
    by (simp_all add: resizeElement_def Let_def b_def)
  have e_only: "\<not> includesChar ''e'' CHR ''w'' \<and> \<not> includesChar ''e'' CHR ''n'' \<and>
      \<not> includesChar ''e'' CHR ''s''"
    by (simp add: includesChar_def)
  show ?thesis
    using fields e_only
      resizeBounds_x_width [of "resizeHandle ?ia" "initialBounds ?ia" "minHeight heights el0" ?dx ?dy]
      resizeBounds_y_height [of "resizeHandle ?ia" "initialBounds ?ia" "minHeight heights el0" ?dx ?dy]
    unfolding b_def
    by (auto simp add: resizeBounds_def Let_def split: prod.splits)
qed

text \<open>
  A code block at \<open>(10, 10)\<close> of size \<open>300 \<times> 150\<close>, east handle dragged by \<open>(50, 30)\<close>:
  only the width changes.
\<close>

theorem resize_anchor_preservation_witness:
  "mode (interaction codeResizing) = RESIZING \<and>
   currentId (interaction codeResizing) = Some ''c'' \<and>
   (newCode ''c'' 10 10) \<lparr> el_width := Some 350 \<rparr>
      \<in> set (elements (handleGlobalMove (\<lambda>i. None) (pointerAt 50 30) codeResizing)) \<and>
   resizeHandle (interaction codeResizing) = ''e'' \<and>
   el_x ((newCode ''c'' 10 10) \<lparr> el_width := Some 350 \<rparr>) = 10 \<and>
   el_y ((newCode ''c'' 10 10) \<lparr> el_width := Some 350 \<rparr>) = 10 \<and>
   el_height ((newCode ''c'' 10 10) \<lparr> el_width := Some 350 \<rparr>) = Some 150"
  using resize_anchor_preservation [of codeResizing "''c''"
      "(newCode ''c'' 10 10) \<lparr> el_width := Some 350 \<rparr>" "\<lambda>i. None" "pointerAt 50 30"]
  by (simp add: codeResizing_eq handleGlobalMove_def resizeElement_def resizeBounds_def
      minHeight_def emptyEditor_def newCode_def blankElement_def pointerAt_def
      includesChar_def Let_def)

text \<open>
  The minimum size does not hold on an axis the handle does not address. A text block of
  height \<open>50\<close> whose content now needs \<open>100 + 16\<close> is resized with the east handle: its
  height stays \<open>50\<close>, below the minimum height \<open>116\<close> of that step.
\<close>

theorem resize_minimum_counterexample:
  "mode (interaction textResizing) = RESIZING \<and>
   elements (handleGlobalMove grownHeights (pointerAt 10 0) textResizing) =
     [(newText ''t'' 0 0) \<lparr> el_width := Some 410, el_height := Some 50 \<rparr>] \<and>
   minHeight grownHeights ((newText ''t'' 0 0) \<lparr> el_height := Some 50 \<rparr>) = 116 \<and>
   \<not> (116 \<le> (50::real))"
  by (simp add: textResizing_eq handleGlobalMove_def resizeElement_def resizeBounds_def
      minHeight_def emptyEditor_def newText_def blankElement_def pointerAt_def
      includesChar_def grownHeights_def Let_def)

text \<open>
  Claim C3, amended. In one resize step the element being resized (at index \<open>k\<close> of the
  collection) gets a width of at least \<open>20\<close> when the handle has \<open>e\<close> or \<open>w\<close>, and a
  height of at least the minimum height when the handle has \<open>s\<close> or \<open>n\<close>. The minimum
  height is \<open>20\<close> for an element that is not a text block, and for a text block the scroll
  height of its content node plus \<open>16\<close> (\<open>20\<close> when no content node is found). An axis
  the handle does not address keeps the snapshot's size, whatever it is.
\<close>

theorem resize_minimum_on_addressed_axes:
  assumes "mode (interaction st) = RESIZING"
    and "currentId (interaction st) = Some i" and "i \<noteq> []"
    and "k < length (elements st)" and "el_id (elements st ! k) = i"
  shows "(includesChar (resizeHandle (interaction st)) CHR ''e'' \<or>
          includesChar (resizeHandle (interaction st)) CHR ''w'' \<longrightarrow>
            el_width (elements (handleGlobalMove heights e st) ! k) \<noteq> None \<and>
            20 \<le> the (el_width (elements (handleGlobalMove heights e st) ! k))) \<and>
         (includesChar (resizeHandle (interaction st)) CHR ''s'' \<or>
          includesChar (resizeHandle (interaction st)) CHR ''n'' \<longrightarrow>
            el_height (elements (handleGlobalMove heights e st) ! k) \<noteq> None \<and>
            minHeight heights (elements st ! k)
              \<le> the (el_height (elements (handleGlobalMove heights e st) ! k))) \<and>
         (el_type (elements st ! k) \<noteq> TEXT \<longrightarrow> minHeight heights (elements st ! k) = 20) \<and>
         (el_type (elements st ! k) = TEXT \<longrightarrow>
            minHeight heights (elements st ! k) =
              (case heights i of Some sh \<Rightarrow> sh + 16 | None \<Rightarrow> 20))"
proof -
  let ?ia = "interaction st"
  let ?dx = "(clientX e - startX ?ia) / scale st"
  let ?dy = "(clientY e - startY ?ia) / scale st"
  let ?el0 = "elements st ! k"
  let ?b = "resizeBounds (resizeHandle ?ia) (initialBounds ?ia) (minHeight heights ?el0) ?dx ?dy"
  from assms(1-3) have els: "elements (handleGlobalMove heights e st) =
      map (resizeElement heights ?ia ?dx ?dy) (elements st)"
    by (rule handleGlobalMove_resizing)
  with assms(4) have el: "elements (handleGlobalMove heights e st) ! k =
      resizeElement heights ?ia ?dx ?dy ?el0" by simp
  from assms(2,5) have fields:
      "el_width (resizeElement heights ?ia ?dx ?dy ?el0) = Some (r_width ?b)"
      "el_height (resizeElement heights ?ia ?dx ?dy ?el0) = Some (r_height ?b)"
    by (simp_all add: resizeElement_def Let_def)
  have mh: "(el_type ?el0 \<noteq> TEXT \<longrightarrow> minHeight heights ?el0 = 20) \<and>
     (el_type ?el0 = TEXT \<longrightarrow>
        minHeight heights ?el0 = (case heights i of Some sh \<Rightarrow> sh + 16 | None \<Rightarrow> 20))"
    using assms(5) by (simp add: minHeight_def)
  show ?thesis
    using mh
      resizeBounds_min_width [of "resizeHandle ?ia" "initialBounds ?ia" "minHeight heights ?el0" ?dx ?dy]
      resizeBounds_min_height [of "resizeHandle ?ia" "minHeight heights ?el0" "initialBounds ?ia" ?dx ?dy]
    by (simp only: el fields option.sel) blast
qed

text \<open>
  The text block of height \<open>200\<close>, north-west handle dragged far to the south-east: the
  width stops at \<open>20\<close> and the height at \<open>116\<close>.
\<close>

theorem resize_minimum_on_addressed_axes_witness:
  "mode (interaction textResizingNW) = RESIZING \<and>
   currentId (interaction textResizingNW) = Some ''t'' \<and>
   el_id (elements textResizingNW ! 0) = ''t'' \<and>
   resizeHandle (interaction textResizingNW) = ''nw'' \<and>
   el_width (elements (handleGlobalMove grownHeights (pointerAt 1000 1000) textResizingNW) ! 0)
     = Some 20 \<and>
   el_height (elements (handleGlobalMove grownHeights (pointerAt 1000 1000) textResizingNW) ! 0)
     = Some 116 \<and>
   minHeight grownHeights (elements textResizingNW ! 0) = 116"
  using resize_minimum_on_addressed_axes
      [of textResizingNW "''t''" 0 grownHeights "pointerAt 1000 1000"]
  by (simp add: textResizingNW_eq handleGlobalMove_def resizeElement_def resizeBounds_def
      minHeight_def emptyEditor_def newText_def blankElement_def pointerAt_def
      includesChar_def grownHeights_def Let_def)

section \<open>The Escape key\<close>

lemma boxDragging_eq:
  "boxDragging =
     emptyEditor \<lparr> elements := [squareA],
       selectionBox := Some \<lparr> r_x = 0, r_y = 0, r_width = 60, r_height = 60 \<rparr>,
       interaction := session 0 0 None BOX_SELECT \<rparr>"
  by (simp add: boxDragging_def handleContainerPointerMove_def handleContainerPointerDown_def
      emptyEditor_def pointerAt_def getMousePos_def session_def initialInteraction_def Let_def)

text \<open>
  Escape does not end the session. Pressed during the box selection over the square, it
  leaves the mode \<open>BOX_SELECT\<close> and the selection rectangle in place, and the pointer-up
  that follows commits the box selection: the square is selected.
\<close>

theorem escape_keeps_session_counterexample:
  "mode (interaction (handleKeyDown escapeKey boxDragging)) = BOX_SELECT \<and>
   mode (interaction (handleKeyDown escapeKey boxDragging)) \<noteq> IDLE \<and>
   selectionBox (handleKeyDown escapeKey boxDragging)
     = Some \<lparr> r_x = 0, r_y = 0, r_width = 60, r_height = 60 \<rparr> \<and>
   selectedIds (handleContainerPointerUp (handleKeyDown escapeKey boxDragging)) = {''a''}"
  by (simp add: boxDragging_eq handleKeyDown_def escapeKey_def handleContainerPointerUp_def
      emptyEditor_def session_def boxHit_def squareA_def newShape_def blankElement_def orElse_def Let_def)

text \<open>
  Claim C4, amended. Pressing Escape switches the tool to \<open>SELECT\<close>, empties the
  selection and closes the command menu. It leaves the interaction session (its mode
  included), the selection rectangle and the elements as they are.
\<close>

theorem escape_resets_tool_and_selection:
  assumes "key e = ''Escape''"
  shows "tool (handleKeyDown e st) = SELECT \<and>
         selectedIds (handleKeyDown e st) = {} \<and>
         slashMenu (handleKeyDown e st) = None \<and>
         interaction (handleKeyDown e st) = interaction st \<and>
         selectionBox (handleKeyDown e st) = selectionBox st \<and>
         elements (handleKeyDown e st) = elements st"
  using assms by (simp add: handleKeyDown_def)

text \<open>
  Escape during the resize of the code block, with the eraser as the tool: the tool is
  reset and the selection emptied, and the mode is still \<open>RESIZING\<close>.
\<close>

theorem escape_resets_tool_and_selection_witness:
  "key escapeKey = ''Escape'' \<and>
   tool (handleKeyDown escapeKey (codeResizing \<lparr> tool := ERASER \<rparr>)) = SELECT \<and>
   selectedIds (handleKeyDown escapeKey (codeResizing \<lparr> tool := ERASER \<rparr>)) = {} \<and>
   slashMenu (handleKeyDown escapeKey (codeResizing \<lparr> tool := ERASER \<rparr>)) = None \<and>
   mode (interaction (handleKeyDown escapeKey (codeResizing \<lparr> tool := ERASER \<rparr>))) = RESIZING"
  using escape_resets_tool_and_selection [of escapeKey "codeResizing \<lparr> tool := ERASER \<rparr>"]
  by (simp add: escapeKey_def codeResizing_eq)

section \<open>Deleting an element\<close>

lemma deleteElement_idem: "deleteElement i (deleteElement i st) = deleteElement i st"
  by (simp add: deleteElement_def)

lemma deleteElement_absent:
  "i \<notin> el_id ` set (elements st) \<Longrightarrow> i \<notin> selectedIds st \<Longrightarrow> deleteElement i st = st"
proof -
  assume a: "i \<notin> el_id ` set (elements st)" and b: "i \<notin> selectedIds st"
  from a have "filter (\<lambda>el. el_id el \<noteq> i) (elements st) = elements st"
    by (auto simp add: filter_id_conv)
  with b show ?thesis by (simp add: deleteElement_def)
qed

text \<open>
  Claim C7. After \<^verbatim>\<open>deleteElement\<close> of an id, no element has that id and the id is not
  selected; if every selected id was the id of an element before, the same holds after.
  Deleting the same id again changes nothing. Deleting an id that no element has leaves
  the elements unchanged, and leaves the whole state unchanged when every selected id
  is the id of an element.
\<close>

theorem deleteElement_atomic_and_idempotent:
  "i \<notin> el_id ` set (elements (deleteElement i st)) \<and>
   i \<notin> selectedIds (deleteElement i st) \<and>
   (selectedIds st \<subseteq> el_id ` set (elements st) \<longrightarrow>
      selectedIds (deleteElement i st) \<subseteq> el_id ` set (elements (deleteElement i st))) \<and>
   deleteElement i (deleteElement i st) = deleteElement i st \<and>
   (i \<notin> el_id ` set (elements st) \<longrightarrow> elements (deleteElement i st) = elements st) \<and>
   (i \<notin> el_id ` set (elements st) \<and> selectedIds st \<subseteq> el_id ` set (elements st) \<longrightarrow>
      deleteElement i st = st)"
proof -
  have 1: "i \<notin> el_id ` set (elements (deleteElement i st))"
    by (auto simp add: deleteElement_def)
  have 2: "i \<notin> selectedIds (deleteElement i st)"
    by (simp add: deleteElement_def)
  have 3: "selectedIds st \<subseteq> el_id ` set (elements st) \<longrightarrow>
      selectedIds (deleteElement i st) \<subseteq> el_id ` set (elements (deleteElement i st))"
    by (auto simp add: deleteElement_def)
  have 5: "i \<notin> el_id ` set (elements st) \<longrightarrow> elements (deleteElement i st) = elements st"
    by (auto simp add: deleteElement_def filter_id_conv)
  have 6: "i \<notin> el_id ` set (elements st) \<and> selectedIds st \<subseteq> el_id ` set (elements st) \<longrightarrow>
      deleteElement i st = st"
    using deleteElement_absent [of i st] by blast
  from 1 2 3 deleteElement_idem 5 6 show ?thesis by blast
qed

text \<open>
  Deleting \<open>a\<close> from the two selected squares, deleting it again, and deleting an id
  that is not there.
\<close>

theorem deleteElement_atomic_and_idempotent_witness:
  "selectedIds twoSquares \<subseteq> el_id ` set (elements twoSquares) \<and>
   elements (deleteElement ''a'' twoSquares) = [squareA \<lparr> el_id := ''b'', el_x := 100 \<rparr>] \<and>
   selectedIds (deleteElement ''a'' twoSquares) = {''b''} \<and>
   ''a'' \<notin> el_id ` set (elements (deleteElement ''a'' twoSquares)) \<and>
   selectedIds (deleteElement ''a'' twoSquares) \<subseteq> el_id ` set (elements (deleteElement ''a'' twoSquares)) \<and>
   deleteElement ''a'' (deleteElement ''a'' twoSquares) = deleteElement ''a'' twoSquares \<and>
   deleteElement ''z'' twoSquares = twoSquares"
  using deleteElement_atomic_and_idempotent [of "''a''" twoSquares]
    deleteElement_atomic_and_idempotent [of "''z''" twoSquares]
  by (simp add: twoSquares_def deleteElement_def emptyEditor_def squareA_def newShape_def blankElement_def)

section \<open>Screen to canvas\<close>

text \<open>
  Claim C9. For a scale in the zoom range, \<^verbatim>\<open>getMousePos\<close> returns the client position
  minus the origin of the container, divided by the scale; multiplying back by the scale
  and adding the origin gives the client position. Whenever a pointer-down on the
  container starts a session, its anchor is that point, and whenever it creates an
  element, the element (for a path, its first point) is at that point.
\<close>

theorem screen_to_canvas_conversion:
  assumes "1 / 10 \<le> scale st" and "scale st \<le> 3"
  shows "pt_x (getMousePos st e) = (clientX e - rectLeft e) / scale st \<and>
         pt_y (getMousePos st e) = (clientY e - rectTop e) / scale st \<and>
         pt_x (getMousePos st e) * scale st + rectLeft e = clientX e \<and>
         pt_y (getMousePos st e) * scale st + rectTop e = clientY e \<and>
         (interaction (handleContainerPointerDown nid e st) \<noteq> interaction st \<longrightarrow>
            startX (interaction (handleContainerPointerDown nid e st))
              = (clientX e - rectLeft e) / scale st \<and>
            startY (interaction (handleContainerPointerDown nid e st))
              = (clientY e - rectTop e) / scale st) \<and>
         (elements (handleContainerPointerDown nid e st) \<noteq> elements st \<and> tool st \<noteq> DRAW \<longrightarrow>
            el_x (last (elements (handleContainerPointerDown nid e st)))
              = (clientX e - rectLeft e) / scale st \<and>
            el_y (last (elements (handleContainerPointerDown nid e st)))
              = (clientY e - rectTop e) / scale st) \<and>
         (elements (handleContainerPointerDown nid e st) \<noteq> elements st \<and> tool st = DRAW \<longrightarrow>
            el_points (last (elements (handleContainerPointerDown nid e st)))
              = Some [\<lparr> pt_x = (clientX e - rectLeft e) / scale st,
                        pt_y = (clientY e - rectTop e) / scale st \<rparr>])"
proof -
  from assms(1) have nz: "scale st \<noteq> 0" by auto
  have conv: "pt_x (getMousePos st e) = (clientX e - rectLeft e) / scale st"
    "pt_y (getMousePos st e) = (clientY e - rectTop e) / scale st"
    by (simp_all add: getMousePos_def)
  have inv: "pt_x (getMousePos st e) * scale st + rectLeft e = clientX e"
    "pt_y (getMousePos st e) * scale st + rectTop e = clientY e"
    using nz by (simp_all add: getMousePos_def)
  have anchors: "interaction (handleContainerPointerDown nid e st) \<noteq> interaction st \<longrightarrow>
            startX (interaction (handleContainerPointerDown nid e st))
              = (clientX e - rectLeft e) / scale st \<and>
            startY (interaction (handleContainerPointerDown nid e st))
              = (clientY e - rectTop e) / scale st"
    by (simp add: handleContainerPointerDown_def getMousePos_def session_def Let_def)
  have geom: "elements (handleContainerPointerDown nid e st) \<noteq> elements st \<and> tool st \<noteq> DRAW \<longrightarrow>
            el_x (last (elements (handleContainerPointerDown nid e st)))
              = (clientX e - rectLeft e) / scale st \<and>
            el_y (last (elements (handleContainerPointerDown nid e st)))
              = (clientY e - rectTop e) / scale st"
    by (simp add: handleContainerPointerDown_def getMousePos_def Let_def newCode_def
        newExpandable_def newText_def newShape_def blankElement_def)
  have path: "elements (handleContainerPointerDown nid e st) \<noteq> elements st \<and> tool st = DRAW \<longrightarrow>
            el_points (last (elements (handleContainerPointerDown nid e st)))
              = Some [\<lparr> pt_x = (clientX e - rectLeft e) / scale st,
                        pt_y = (clientY e - rectTop e) / scale st \<rparr>]"
    by (simp add: handleContainerPointerDown_def getMousePos_def Let_def newPath_def blankElement_def)
  from conv inv anchors geom path show ?thesis by blast
qed

text \<open>
  At zoom \<open>2\<close> with the container at \<open>(100, 50)\<close>, the client position \<open>(300, 250)\<close>
  is the canvas position \<open>(100, 100)\<close>.
\<close>

theorem screen_to_canvas_conversion_witness:
  "1 / 10 \<le> scale zoomedRectEditor \<and> scale zoomedRectEditor \<le> 3 \<and>
   getMousePos zoomedRectEditor offsetPointer = \<lparr> pt_x = 100, pt_y = 100 \<rparr> \<and>
   startX (interaction (handleContainerPointerDown ''n'' offsetPointer zoomedRectEditor)) = 100 \<and>
   startY (interaction (handleContainerPointerDown ''n'' offsetPointer zoomedRectEditor)) = 100 \<and>
   elements (handleContainerPointerDown ''n'' offsetPointer zoomedRectEditor)
     = [newShape ''n'' RECT ''#000000'' 100 100]"
  using screen_to_canvas_conversion [of zoomedRectEditor offsetPointer "''n''"]
  by (simp add: zoomedRectEditor_def offsetPointer_def emptyEditor_def pointerAt_def
      handleContainerPointerDown_def getMousePos_def session_def Let_def)

section \<open>Box selection\<close>

lemma boxHit_unfold:
  "boxHit sb el =
    (el_x el < r_x sb + r_width sb \<and>
     el_x el + (case el_width el of None \<Rightarrow> 10 | Some w \<Rightarrow> if w = 0 then 10 else w) > r_x sb \<and>
     el_y el < r_y sb + r_height sb \<and>
     el_y el + (case el_height el of None \<Rightarrow> 10 | Some h \<Rightarrow> if h = 0 then 10 else h) > r_y sb)"
  by (simp add: boxHit_def orElse_def Let_def split: option.splits)

text \<open>
  Claim C5. A pointer-up on the container in mode \<open>BOX_SELECT\<close> sets the selection to
  the union of the selection before and the ids of the elements whose box overlaps the
  selection rectangle in the open-interval sense, where a width or height that is absent
  or \<open>0\<close> counts as \<open>10\<close>; it removes the rectangle and ends the session. A
  pointer-down on the background with the select tool empties the selection unless shift
  is held, which keeps it, and starts the session with an empty rectangle at the pointer.
  A pointer move in that mode changes the rectangle only.
\<close>

theorem box_select_resolution:
  "(mode (interaction st) = BOX_SELECT \<and> selectionBox st = Some sb \<longrightarrow>
      selectedIds (handleContainerPointerUp st) =
        selectedIds st \<union>
        el_id ` {el \<in> set (elements st).
                  el_x el < r_x sb + r_width sb \<and>
                  el_x el + (case el_width el of None \<Rightarrow> 10 | Some w \<Rightarrow> if w = 0 then 10 else w)
                    > r_x sb \<and>
                  el_y el < r_y sb + r_height sb \<and>
                  el_y el + (case el_height el of None \<Rightarrow> 10 | Some h \<Rightarrow> if h = 0 then 10 else h)
                    > r_y sb} \<and>
      selectionBox (handleContainerPointerUp st) = None \<and>
      mode (interaction (handleContainerPointerUp st)) = IDLE \<and>
      elements (handleContainerPointerUp st) = elements st) \<and>
   (tool st = SELECT \<and> targetIsBackground e \<longrightarrow>
      selectedIds (handleContainerPointerDown nid e st)
        = (if shiftKey e then selectedIds st else {}) \<and>
      mode (interaction (handleContainerPointerDown nid e st)) = BOX_SELECT \<and>
      selectionBox (handleContainerPointerDown nid e st)
        = Some \<lparr> r_x = pt_x (getMousePos st e), r_y = pt_y (getMousePos st e),
                 r_width = 0, r_height = 0 \<rparr>) \<and>
   (mode (interaction st) = BOX_SELECT \<longrightarrow>
      selectedIds (handleContainerPointerMove e st) = selectedIds st \<and>
      mode (interaction (handleContainerPointerMove e st)) = BOX_SELECT \<and>
      selectionBox (handleContainerPointerMove e st)
        = Some \<lparr> r_x = min (pt_x (getMousePos st e)) (startX (interaction st)),
                 r_y = min (pt_y (getMousePos st e)) (startY (interaction st)),
                 r_width = \<bar>pt_x (getMousePos st e) - startX (interaction st)\<bar>,
                 r_height = \<bar>pt_y (getMousePos st e) - startY (interaction st)\<bar> \<rparr>)"
proof -
  have up: "mode (interaction st) = BOX_SELECT \<and> selectionBox st = Some sb \<longrightarrow>
      selectedIds (handleContainerPointerUp st) =
        selectedIds st \<union>
        el_id ` {el \<in> set (elements st).
                  el_x el < r_x sb + r_width sb \<and>
                  el_x el + (case el_width el of None \<Rightarrow> 10 | Some w \<Rightarrow> if w = 0 then 10 else w)
                    > r_x sb \<and>
                  el_y el < r_y sb + r_height sb \<and>
                  el_y el + (case el_height el of None \<Rightarrow> 10 | Some h \<Rightarrow> if h = 0 then 10 else h)
                    > r_y sb} \<and>
      selectionBox (handleContainerPointerUp st) = None \<and>
      mode (interaction (handleContainerPointerUp st)) = IDLE \<and>
      elements (handleContainerPointerUp st) = elements st"
    by (simp add: handleContainerPointerUp_def Let_def boxHit_unfold)
  have down: "tool st = SELECT \<and> targetIsBackground e \<longrightarrow>
      selectedIds (handleContainerPointerDown nid e st)
        = (if shiftKey e then selectedIds st else {}) \<and>
      mode (interaction (handleContainerPointerDown nid e st)) = BOX_SELECT \<and>
      selectionBox (handleContainerPointerDown nid e st)
        = Some \<lparr> r_x = pt_x (getMousePos st e), r_y = pt_y (getMousePos st e),
                 r_width = 0, r_height = 0 \<rparr>"
    by (simp add: handleContainerPointerDown_def Let_def session_def)
  have move: "mode (interaction st) = BOX_SELECT \<longrightarrow>
      selectedIds (handleContainerPointerMove e st) = selectedIds st \<and>
      mode (interaction (handleContainerPointerMove e st)) = BOX_SELECT \<and>
      selectionBox (handleContainerPointerMove e st)
        = Some \<lparr> r_x = min (pt_x (getMousePos st e)) (startX (interaction st)),
                 r_y = min (pt_y (getMousePos st e)) (startY (interaction st)),
                 r_width = \<bar>pt_x (getMousePos st e) - startX (interaction st)\<bar>,
                 r_height = \<bar>pt_y (getMousePos st e) - startY (interaction st)\<bar> \<rparr>"
    by (auto simp add: handleContainerPointerMove_def Let_def min_def)
  from up down move show ?thesis by blast
qed

lemma boxDown_eq:
  "handleContainerPointerDown ''n'' ((pointerAt 0 0) \<lparr> shiftKey := shift \<rparr>) threeShapes =
     threeShapes \<lparr> interaction := session 0 0 None BOX_SELECT,
                   selectionBox := Some \<lparr> r_x = 0, r_y = 0, r_width = 0, r_height = 0 \<rparr>,
                   selectedIds := (if shift then {''f''} else {}) \<rparr>"
  by (simp add: handleContainerPointerDown_def threeShapes_def emptyEditor_def pointerAt_def
      getMousePos_def Let_def)

lemma boxMove_eq:
  "handleContainerPointerMove (pointerAt 60 60)
     (handleContainerPointerDown ''n'' ((pointerAt 0 0) \<lparr> shiftKey := shift \<rparr>) threeShapes) =
     threeShapes \<lparr> interaction := session 0 0 None BOX_SELECT,
                   selectionBox := Some \<lparr> r_x = 0, r_y = 0, r_width = 60, r_height = 60 \<rparr>,
                   selectedIds := (if shift then {''f''} else {}) \<rparr>"
  unfolding boxDown_eq
  by (simp add: handleContainerPointerMove_def threeShapes_def emptyEditor_def pointerAt_def
      getMousePos_def session_def Let_def)

lemma threeShapes_up:
  "handleContainerPointerUp (threeShapes \<lparr> interaction := session 0 0 None BOX_SELECT,
                   selectionBox := Some \<lparr> r_x = 0, r_y = 0, r_width = 60, r_height = 60 \<rparr>,
                   selectedIds := S \<rparr>) =
    threeShapes \<lparr> interaction := session 0 0 None IDLE,
                   selectionBox := None,
                   selectedIds := S \<union> {''a'', ''z''} \<rparr>"
  by (simp add: handleContainerPointerUp_def Let_def session_def threeShapes_def emptyEditor_def
      boxHit_def orElse_def squareA_def pointA_def newShape_def blankElement_def
      del: set_filter)

lemma boxGesture_selected:
  "selectedIds (boxGesture shift) = (if shift then {''a'', ''z'', ''f''} else {''a'', ''z''}) \<and>
   mode (interaction (boxGesture shift)) = IDLE \<and> selectionBox (boxGesture shift) = None"
  unfolding boxGesture_def boxMove_eq threeShapes_up
  by (simp add: session_def)

text \<open>
  With \<open>f\<close> selected, a plain box selection over \<open>a\<close> and the zero-size \<open>z\<close> ends
  with exactly these two selected; with shift, \<open>f\<close> stays selected as well.
\<close>

theorem box_select_resolution_witness:
  "tool threeShapes = SELECT \<and> targetIsBackground (pointerAt 0 0) \<and>
   selectedIds threeShapes = {''f''} \<and>
   mode (interaction (handleContainerPointerDown ''n'' (pointerAt 0 0) threeShapes)) = BOX_SELECT \<and>
   selectedIds (handleContainerPointerDown ''n'' (pointerAt 0 0) threeShapes) = {} \<and>
   selectedIds (boxGesture False) = {''a'', ''z''} \<and>
   selectedIds (boxGesture True) = {''a'', ''z'', ''f''} \<and>
   mode (interaction (boxGesture False)) = IDLE \<and>
   selectionBox (boxGesture False) = None"
proof -
  have start: "tool threeShapes = SELECT \<and> targetIsBackground (pointerAt 0 0) \<and>
      selectedIds threeShapes = {''f''}"
    by (simp add: threeShapes_def emptyEditor_def pointerAt_def)
  with box_select_resolution [of threeShapes "\<lparr> r_x = 0, r_y = 0, r_width = 0, r_height = 0 \<rparr>"
      "pointerAt 0 0" "''n''"]
  have down: "mode (interaction (handleContainerPointerDown ''n'' (pointerAt 0 0) threeShapes))
        = BOX_SELECT \<and>
      selectedIds (handleContainerPointerDown ''n'' (pointerAt 0 0) threeShapes) = {}"
    by (simp add: pointerAt_def)
  from start down boxGesture_selected [of False] boxGesture_selected [of True]
  show ?thesis by simp
qed

section \<open>Moving the selection\<close>

lemma moveElement_id [simp]: "el_id (moveElement ips dx dy el) = el_id el"
  by (simp add: moveElement_def split: option.splits)

lemma moveElement_twice:
  "moveElement ips dx dy (moveElement ips dx' dy' el) = moveElement ips dx dy el"
  by (simp add: moveElement_def split: option.splits)

lemma handleGlobalMove_moving:
  "mode (interaction st) = MOVING \<Longrightarrow>
   handleGlobalMove heights e st =
     st \<lparr> elements := map (moveElement (initialPositions (interaction st))
                              ((clientX e - startX (interaction st)) / scale st)
                              ((clientY e - startY (interaction st)) / scale st)) (elements st) \<rparr>"
  by (simp add: handleGlobalMove_def Let_def)

text \<open>
  Claim C6. A pointer move in mode \<open>MOVING\<close> keeps the number and order of the
  elements; an element whose id is in the snapshot is put at its snapshot origin plus the
  delta, which is the client position minus the anchor, divided by the scale, the same
  for every element; an element whose id is not in the snapshot is not changed. The
  delta is not accumulated: a move after another move gives what the move alone gives.
\<close>

theorem moving_applies_snapshot_plus_delta:
  assumes "mode (interaction st) = MOVING" and "k < length (elements st)"
  shows "length (elements (handleGlobalMove heights e st)) = length (elements st) \<and>
         (initialPositions (interaction st) (el_id (elements st ! k)) = Some init \<longrightarrow>
            elements (handleGlobalMove heights e st) ! k =
              (elements st ! k)
                \<lparr> el_x := pt_x init + (clientX e - startX (interaction st)) / scale st,
                  el_y := pt_y init + (clientY e - startY (interaction st)) / scale st \<rparr>) \<and>
         (initialPositions (interaction st) (el_id (elements st ! k)) = None \<longrightarrow>
            elements (handleGlobalMove heights e st) ! k = elements st ! k) \<and>
         handleGlobalMove heights e (handleGlobalMove heights e' st) = handleGlobalMove heights e st"
proof -
  note mv = handleGlobalMove_moving [OF assms(1)]
  have len: "length (elements (handleGlobalMove heights e st)) = length (elements st)"
    by (simp add: mv)
  have some: "initialPositions (interaction st) (el_id (elements st ! k)) = Some init \<longrightarrow>
            elements (handleGlobalMove heights e st) ! k =
              (elements st ! k)
                \<lparr> el_x := pt_x init + (clientX e - startX (interaction st)) / scale st,
                  el_y := pt_y init + (clientY e - startY (interaction st)) / scale st \<rparr>"
    using assms(2) by (simp add: mv moveElement_def)
  have none: "initialPositions (interaction st) (el_id (elements st ! k)) = None \<longrightarrow>
            elements (handleGlobalMove heights e st) ! k = elements st ! k"
    using assms(2) by (simp add: mv moveElement_def)
  have m': "mode (interaction (handleGlobalMove heights e' st)) = MOVING"
    using assms(1) by (simp add: mv)
  have again: "handleGlobalMove heights e (handleGlobalMove heights e' st) = handleGlobalMove heights e st"
    unfolding handleGlobalMove_moving [OF m']
    by (simp add: mv moveElement_twice comp_def)
  from len some none again show ?thesis by blast
qed

lemma dragStartOnA_eq:
  "dragStartOnA =
     emptyEditor \<lparr> elements := [squareA, squareA \<lparr> el_id := ''b'', el_x := 100, el_y := 40 \<rparr>],
       selectedIds := {''a'', ''b''},
       interaction := \<lparr> startX = 15, startY = 15, currentId = Some ''a'', mode = MOVING,
          initialPositions = [''a'' \<mapsto> \<lparr> pt_x = 10, pt_y = 10 \<rparr>, ''b'' \<mapsto> \<lparr> pt_x = 100, pt_y = 40 \<rparr>],
          resizeHandle = [],
          initialBounds = \<lparr> r_x = 0, r_y = 0, r_width = 0, r_height = 0 \<rparr> \<rparr> \<rparr>"
  by (simp add: dragStartOnA_def handleElementPointerDown_def emptyEditor_def pointerAt_def Let_def
      snapshot_def elementStrokeColor_def squareA_def newShape_def blankElement_def)

text \<open>
  Dragging \<open>a\<close> by \<open>(30, -5)\<close> with \<open>b\<close> selected too: \<open>a\<close> goes from
  \<open>(10, 10)\<close> to \<open>(40, 5)\<close> and \<open>b\<close> from \<open>(100, 40)\<close> to \<open>(130, 35)\<close>, also after a
  detour of the pointer.
\<close>

theorem moving_applies_snapshot_plus_delta_witness:
  "mode (interaction dragStartOnA) = MOVING \<and>
   initialPositions (interaction dragStartOnA) ''a'' = Some \<lparr> pt_x = 10, pt_y = 10 \<rparr> \<and>
   initialPositions (interaction dragStartOnA) ''b'' = Some \<lparr> pt_x = 100, pt_y = 40 \<rparr> \<and>
   elements (handleGlobalMove (\<lambda>i. None) (pointerAt 45 10) dragStartOnA) =
     [squareA \<lparr> el_x := 40, el_y := 5 \<rparr>,
      squareA \<lparr> el_id := ''b'', el_x := 130, el_y := 35 \<rparr>] \<and>
   handleGlobalMove (\<lambda>i. None) (pointerAt 45 10)
       (handleGlobalMove (\<lambda>i. None) (pointerAt 500 500) dragStartOnA)
     = handleGlobalMove (\<lambda>i. None) (pointerAt 45 10) dragStartOnA"
proof -
  have m: "mode (interaction dragStartOnA) = MOVING"
    by (simp add: dragStartOnA_eq)
  have ips: "initialPositions (interaction dragStartOnA) ''a'' = Some \<lparr> pt_x = 10, pt_y = 10 \<rparr>"
    "initialPositions (interaction dragStartOnA) ''b'' = Some \<lparr> pt_x = 100, pt_y = 40 \<rparr>"
    by (simp_all add: dragStartOnA_eq)
  have els: "elements (handleGlobalMove (\<lambda>i. None) (pointerAt 45 10) dragStartOnA) =
     [squareA \<lparr> el_x := 40, el_y := 5 \<rparr>,
      squareA \<lparr> el_id := ''b'', el_x := 130, el_y := 35 \<rparr>]"
    by (simp add: handleGlobalMove_moving [OF m])
      (simp add: dragStartOnA_eq moveElement_def emptyEditor_def pointerAt_def squareA_def
        newShape_def blankElement_def)
  have k: "0 < length (elements dragStartOnA)" by (simp add: dragStartOnA_eq)
  from moving_applies_snapshot_plus_delta [OF m k, of "\<lambda>i. None" "pointerAt 45 10" _ "pointerAt 500 500"]
  have "handleGlobalMove (\<lambda>i. None) (pointerAt 45 10)
       (handleGlobalMove (\<lambda>i. None) (pointerAt 500 500) dragStartOnA)
     = handleGlobalMove (\<lambda>i. None) (pointerAt 45 10) dragStartOnA" by blast
  with m ips els show ?thesis by blast
qed

section \<open>Creating a rectangle or an ellipse\<close>

lemma pointerMoves_snoc:
  "pointerMoves heights (es @ [e]) st = pointerMove heights e (pointerMoves heights es st)"
  by (simp add: pointerMoves_def)

lemma pointerMove_creating:
  "mode (interaction st) = CREATING \<Longrightarrow>
   pointerMove heights e st =
     st \<lparr> elements := map (createStep (interaction st) (pt_x (getMousePos st e))
                              (pt_y (getMousePos st e))) (elements st) \<rparr>"
  by (simp add: pointerMove_def handleContainerPointerMove_def handleGlobalMove_def Let_def)

lemma shape_down:
  assumes "tool st = RECT \<or> tool st = CIRCLE_TOOL" and "button e0 = 0"
  shows "handleContainerPointerDown nid e0 st =
     st \<lparr> interaction := session (pt_x (getMousePos st e0)) (pt_y (getMousePos st e0)) (Some nid) CREATING,
          elements := elements st @ [newShape nid (tool st) (activeColor st)
                                       (pt_x (getMousePos st e0)) (pt_y (getMousePos st e0))] \<rparr>"
  using assms by (auto simp add: handleContainerPointerDown_def Let_def)

lemma draggedShape_start:
  "newShape nid t c (pt_x a) (pt_y a) = draggedShape (st \<lparr> tool := t, activeColor := c \<rparr>) nid a a"
  by (simp add: draggedShape_def newShape_def blankElement_def)

lemma createStep_draggedShape:
  "createStep (session (pt_x a) (pt_y a) (Some nid) CREATING) x y (draggedShape st nid a p)
     = draggedShape st nid a \<lparr> pt_x = x, pt_y = y \<rparr>"
  by (simp add: createStep_def draggedShape_def newShape_def blankElement_def session_def
      Let_def min_def)

lemma creating_invariant:
  assumes "tool st = RECT \<or> tool st = CIRCLE_TOOL" and "button e0 = 0"
  shows "interaction (creatingDrag heights nid e0 es st)
           = session (pt_x (getMousePos st e0)) (pt_y (getMousePos st e0)) (Some nid) CREATING \<and>
         scale (creatingDrag heights nid e0 es st) = scale st \<and>
         length (elements (creatingDrag heights nid e0 es st)) = Suc (length (elements st)) \<and>
         last (elements (creatingDrag heights nid e0 es st)) =
           draggedShape st nid (getMousePos st e0) (getMousePos st (last (e0 # es)))"
proof (induction es rule: rev_induct)
  case Nil
  have "newShape nid (tool st) (activeColor st) (pt_x (getMousePos st e0)) (pt_y (getMousePos st e0))
      = draggedShape st nid (getMousePos st e0) (getMousePos st e0)"
    using draggedShape_start [of nid "tool st" "activeColor st" "getMousePos st e0" st] by simp
  then show ?case
    by (simp add: creatingDrag_def pointerMoves_def shape_down [OF assms])
next
  case (snoc e es)
  let ?s = "creatingDrag heights nid e0 es st"
  let ?a = "getMousePos st e0"
  let ?ia = "session (pt_x ?a) (pt_y ?a) (Some nid) CREATING"
  from snoc have ia: "interaction ?s = ?ia" and sc: "scale ?s = scale st"
    and len: "length (elements ?s) = Suc (length (elements st))"
    and lst: "last (elements ?s) = draggedShape st nid ?a (getMousePos st (last (e0 # es)))"
    by simp_all
  have m: "mode (interaction ?s) = CREATING" by (simp add: ia session_def)
  have pos: "getMousePos ?s e = getMousePos st e" by (simp add: getMousePos_def sc)
  have step: "creatingDrag heights nid e0 (es @ [e]) st = pointerMove heights e ?s"
    by (simp add: creatingDrag_def pointerMoves_snoc)
  from len have ne: "elements ?s \<noteq> []" by auto
  have p: "\<lparr> pt_x = pt_x (getMousePos st e), pt_y = pt_y (getMousePos st e) \<rparr> = getMousePos st e"
    by simp
  have "last (map (createStep ?ia (pt_x (getMousePos st e)) (pt_y (getMousePos st e))) (elements ?s))
      = draggedShape st nid ?a (getMousePos st e)"
    by (simp only: last_map [OF ne] lst createStep_draggedShape p)
  then show ?case
    unfolding step pointerMove_creating [OF m] pos
    by (simp add: ia sc len)
qed

text \<open>
  Claim C1. With the rectangle or the circle tool, after a primary-button press on the
  container and any sequence of pointer moves, the element created by the press is the
  last of the collection, and its width and height are the absolute differences between
  the last pointer position and the anchor, its origin their minimum on each axis; so
  width and height are not negative. (With no move at all the pointer is at the anchor.)
\<close>

theorem creating_drag_geometry:
  assumes "tool st = RECT \<or> tool st = CIRCLE_TOOL" and "button e0 = 0"
  shows "length (elements (creatingDrag heights nid e0 es st)) = Suc (length (elements st)) \<and>
         el_id (last (elements (creatingDrag heights nid e0 es st))) = nid \<and>
         el_type (last (elements (creatingDrag heights nid e0 es st)))
           = (if tool st = RECT then RECTANGLE else CIRCLE) \<and>
         el_width (last (elements (creatingDrag heights nid e0 es st)))
           = Some \<bar>pt_x (getMousePos st (last (e0 # es))) - pt_x (getMousePos st e0)\<bar> \<and>
         el_height (last (elements (creatingDrag heights nid e0 es st)))
           = Some \<bar>pt_y (getMousePos st (last (e0 # es))) - pt_y (getMousePos st e0)\<bar> \<and>
         el_x (last (elements (creatingDrag heights nid e0 es st)))
           = min (pt_x (getMousePos st (last (e0 # es)))) (pt_x (getMousePos st e0)) \<and>
         el_y (last (elements (creatingDrag heights nid e0 es st)))
           = min (pt_y (getMousePos st (last (e0 # es)))) (pt_y (getMousePos st e0)) \<and>
         0 \<le> the (el_width (last (elements (creatingDrag heights nid e0 es st)))) \<and>
         0 \<le> the (el_height (last (elements (creatingDrag heights nid e0 es st))))"
  using creating_invariant [OF assms, of heights nid es]
  by (simp add: draggedShape_def newShape_def blankElement_def)

text \<open>
  Press at \<open>(50, 50)\<close>, move to \<open>(20, 200)\<close>, then to \<open>(150, 120)\<close> and release there:
  the rectangle is at \<open>(50, 50)\<close> with size \<open>100 \<times> 70\<close>. After the first move alone
  it is at \<open>(20, 50)\<close> with size \<open>30 \<times> 150\<close>.
\<close>

theorem creating_drag_geometry_witness:
  "tool (emptyEditor \<lparr> tool := RECT \<rparr>) = RECT \<and> button (pointerAt 50 50) = 0 \<and>
   elements (rectDrag [pointerAt 20 200, pointerAt 150 120]) =
     [(newShape ''r'' RECT ''#000000'' 50 50) \<lparr> el_width := Some 100, el_height := Some 70 \<rparr>] \<and>
   elements (handleGlobalUp (handleContainerPointerUp (rectDrag [pointerAt 20 200, pointerAt 150 120]))) =
     [(newShape ''r'' RECT ''#000000'' 50 50) \<lparr> el_width := Some 100, el_height := Some 70 \<rparr>] \<and>
   elements (rectDrag [pointerAt 20 200]) =
     [(newShape ''r'' RECT ''#000000'' 20 50) \<lparr> el_width := Some 30, el_height := Some 150 \<rparr>]"
proof -
  have t: "tool (emptyEditor \<lparr> tool := RECT \<rparr>) = RECT" and b: "button (pointerAt 50 50) = 0"
    by (simp_all add: pointerAt_def)
  have down: "handleContainerPointerDown ''r'' (pointerAt 50 50) (emptyEditor \<lparr> tool := RECT \<rparr>) =
      emptyEditor \<lparr> tool := RECT, interaction := session 50 50 (Some ''r'') CREATING,
                    elements := [newShape ''r'' RECT ''#000000'' 50 50] \<rparr>"
    by (simp add: handleContainerPointerDown_def emptyEditor_def pointerAt_def getMousePos_def Let_def)
  have move: "pointerMove (\<lambda>i. None) (pointerAt x y)
        (emptyEditor \<lparr> tool := RECT, interaction := session 50 50 (Some ''r'') CREATING,
                       elements := [(newShape ''r'' RECT ''#000000'' x0 y0) \<lparr> el_width := w0, el_height := h0 \<rparr>] \<rparr>)
      = emptyEditor \<lparr> tool := RECT, interaction := session 50 50 (Some ''r'') CREATING,
                      elements := [(newShape ''r'' RECT ''#000000'' (min x 50) (min y 50))
                                     \<lparr> el_width := Some \<bar>x - 50\<bar>, el_height := Some \<bar>y - 50\<bar> \<rparr>] \<rparr>"
    for x y x0 y0 w0 h0
    by (simp add: pointerMove_def handleContainerPointerMove_def handleGlobalMove_def createStep_def
        emptyEditor_def pointerAt_def getMousePos_def session_def newShape_def blankElement_def
        Let_def min_def)
  have start: "emptyEditor \<lparr> tool := RECT, interaction := session 50 50 (Some ''r'') CREATING,
                    elements := [newShape ''r'' RECT ''#000000'' 50 50] \<rparr> =
     emptyEditor \<lparr> tool := RECT, interaction := session 50 50 (Some ''r'') CREATING,
                    elements := [(newShape ''r'' RECT ''#000000'' 50 50) \<lparr> el_width := Some 0, el_height := Some 0 \<rparr>] \<rparr>"
    by (simp add: newShape_def blankElement_def)
  have two: "rectDrag [pointerAt 20 200, pointerAt 150 120] =
      emptyEditor \<lparr> tool := RECT, interaction := session 50 50 (Some ''r'') CREATING,
         elements := [(newShape ''r'' RECT ''#000000'' 50 50) \<lparr> el_width := Some 100, el_height := Some 70 \<rparr>] \<rparr>"
    unfolding rectDrag_def creatingDrag_def pointerMoves_def down start
    by (simp add: move)
  have one: "rectDrag [pointerAt 20 200] =
      emptyEditor \<lparr> tool := RECT, interaction := session 50 50 (Some ''r'') CREATING,
         elements := [(newShape ''r'' RECT ''#000000'' 20 50) \<lparr> el_width := Some 30, el_height := Some 150 \<rparr>] \<rparr>"
    unfolding rectDrag_def creatingDrag_def pointerMoves_def down start
    by (simp add: move)
  have up: "elements (handleGlobalUp (handleContainerPointerUp s)) = elements s" for s
    by (simp add: handleGlobalUp_def handleContainerPointerUp_def Let_def)
  from creating_drag_geometry [of "emptyEditor \<lparr> tool := RECT \<rparr>" "pointerAt 50 50" "\<lambda>i. None" "''r''"
      "[pointerAt 20 200, pointerAt 150 120]"] t b
  have "el_width (last (elements (rectDrag [pointerAt 20 200, pointerAt 150 120]))) = Some 100"
    by (simp add: rectDrag_def getMousePos_def pointerAt_def emptyEditor_def)
  with t b show ?thesis by (simp add: up two one)
qed

section \<open>Click-to-place tools\<close>

lemma pointerMove_idle: "mode (interaction st) = IDLE \<Longrightarrow> pointerMove heights e st = st"
  by (simp add: pointerMove_def handleContainerPointerMove_def handleGlobalMove_def Let_def)

lemma pointerMoves_idle: "mode (interaction st) = IDLE \<Longrightarrow> pointerMoves heights es st = st"
  by (induction es rule: rev_induct) (simp_all add: pointerMoves_def pointerMove_idle)

lemma place_down:
  assumes "tool st = TEXT_TOOL \<or> tool st = CODE_TOOL \<or> tool st = EXPANDABLE_TOOL"
    and "button e = 0" and "\<not> (tool st = TEXT_TOOL \<and> targetIsContentEditable e)"
  shows "handleContainerPointerDown nid e st =
     st \<lparr> interaction := session (pt_x (getMousePos st e)) (pt_y (getMousePos st e)) (Some nid) IDLE,
          elements := elements st @ [placedElement (tool st) nid (getMousePos st e)],
          timeouts := timeouts st @ [nid] \<rparr>"
proof -
  consider "tool st = TEXT_TOOL" | "tool st = CODE_TOOL" | "tool st = EXPANDABLE_TOOL"
    using assms(1) by blast
  then show ?thesis
  proof cases
    case 1
    then show ?thesis
      using assms(2,3)
      by (simp add: handleContainerPointerDown_def placedElement_def Let_def newText_def
          blankElement_def)
  next
    case 2
    then show ?thesis
      using assms(2)
      by (simp add: handleContainerPointerDown_def placedElement_def Let_def newCode_def
          blankElement_def)
  next
    case 3
    then show ?thesis
      using assms(2)
      by (simp add: handleContainerPointerDown_def placedElement_def Let_def newExpandable_def
          blankElement_def)
  qed
qed

lemma place_other_button:
  assumes "tool st = TEXT_TOOL \<or> tool st = CODE_TOOL \<or> tool st = EXPANDABLE_TOOL"
    and "button e \<noteq> 0"
  shows "handleContainerPointerDown nid e st = st"
proof -
  from assms(1) have "tool st \<noteq> SELECT" and "tool st \<noteq> ERASER" by auto
  with assms(2) show ?thesis
    by (simp add: handleContainerPointerDown_def)
qed

lemma place_on_editable:
  assumes "tool st = TEXT_TOOL" and "targetIsContentEditable e"
  shows "handleContainerPointerDown nid e st = st"
  using assms by (simp add: handleContainerPointerDown_def Let_def)

lemma runTimeout_head:
  "timeouts s = i # rest \<Longrightarrow>
   selectedIds (runTimeout s) = {i} \<and> elements (runTimeout s) = elements s \<and>
   timeouts (runTimeout s) = rest"
  by (simp add: runTimeout_def)

lemma runTimeouts_Suc: "runTimeouts (Suc n) s = runTimeout (runTimeouts n s)"
  by (simp add: runTimeouts_def)

lemma runTimeouts_prefix:
  "n \<le> length (timeouts s) \<Longrightarrow>
   timeouts (runTimeouts n s) = drop n (timeouts s) \<and>
   elements (runTimeouts n s) = elements s"
proof (induction n)
  case 0
  show ?case by (simp add: runTimeouts_def)
next
  case (Suc n)
  then have ih: "timeouts (runTimeouts n s) = drop n (timeouts s)"
    "elements (runTimeouts n s) = elements s" and n: "n < length (timeouts s)"
    by simp_all
  from n have "drop n (timeouts s) = timeouts s ! n # drop (Suc n) (timeouts s)"
    by (simp add: Cons_nth_drop_Suc)
  with ih(1) have hd: "timeouts (runTimeouts n s) = timeouts s ! n # drop (Suc n) (timeouts s)"
    by simp
  from runTimeout_head [OF hd] ih(2) show ?case
    by (simp add: runTimeouts_Suc)
qed

lemma runTimeouts_last:
  assumes "timeouts s = ts @ [i]"
  shows "selectedIds (runTimeouts (Suc (length ts)) s) = {i} \<and>
         elements (runTimeouts (Suc (length ts)) s) = elements s \<and>
         timeouts (runTimeouts (Suc (length ts)) s) = []"
proof -
  have le: "length ts \<le> length (timeouts s)" by (simp add: assms)
  from runTimeouts_prefix [OF le]
  have hd: "timeouts (runTimeouts (length ts) s) = i # []"
    and el: "elements (runTimeouts (length ts) s) = elements s"
    by (simp_all add: assms)
  from runTimeout_head [OF hd] el show ?thesis
    by (simp add: runTimeouts_Suc)
qed

text \<open>
  With the text tool, a press of the secondary button on the background creates nothing.
  A press of the primary button leaves the selection as it was when the handler returns,
  and the deferred callback then replaces the selection by the new id alone: the two
  squares that were selected are no longer selected.
\<close>

theorem click_to_place_counterexample:
  "tool textPlacing = TEXT_TOOL \<and> targetIsBackground (pointerAt 300 300) \<and>
   elements (handleContainerPointerDown ''n'' ((pointerAt 300 300) \<lparr> button := 2 \<rparr>) textPlacing)
     = elements textPlacing \<and>
   selectedIds textPlacing = {''a'', ''b''} \<and>
   selectedIds (handleContainerPointerDown ''n'' (pointerAt 300 300) textPlacing) = {''a'', ''b''} \<and>
   selectedIds (runTimeout (handleContainerPointerDown ''n'' (pointerAt 300 300) textPlacing)) = {''n''}"
  by (simp add: textPlacing_def twoSquares_def emptyEditor_def pointerAt_def
      handleContainerPointerDown_def runTimeout_def newText_def blankElement_def Let_def)

text \<open>
  Claim C8, amended. With the text, code or section tool, a primary-button press on the
  container (for the text tool: on a target that is not an editable surface) appends
  exactly one element, the default element of the tool at the canvas position of the
  pointer, and leaves the mode \<open>IDLE\<close>, so that no sequence of pointer moves after it
  changes anything. The handler itself does not change the selection: it appends one
  callback to the pending ones, and once the pending callbacks have run, that one last,
  the selection is the new id alone (with none pending before, after that one callback).
  A press with any other button changes nothing, and neither does a press with the text
  tool on an editable surface. Whenever the callback of an id runs, the selection
  becomes that id alone and the elements stay.
\<close>

theorem click_to_place:
  assumes "tool st = TEXT_TOOL \<or> tool st = CODE_TOOL \<or> tool st = EXPANDABLE_TOOL"
  shows "(button e = 0 \<and> \<not> (tool st = TEXT_TOOL \<and> targetIsContentEditable e) \<longrightarrow>
            elements (handleContainerPointerDown nid e st)
              = elements st @ [placedElement (tool st) nid (getMousePos st e)] \<and>
            el_id (placedElement (tool st) nid (getMousePos st e)) = nid \<and>
            el_x (placedElement (tool st) nid (getMousePos st e)) = pt_x (getMousePos st e) \<and>
            el_y (placedElement (tool st) nid (getMousePos st e)) = pt_y (getMousePos st e) \<and>
            mode (interaction (handleContainerPointerDown nid e st)) = IDLE \<and>
            selectedIds (handleContainerPointerDown nid e st) = selectedIds st \<and>
            timeouts (handleContainerPointerDown nid e st) = timeouts st @ [nid] \<and>
            (timeouts st = [] \<longrightarrow>
               selectedIds (runTimeout (handleContainerPointerDown nid e st)) = {nid} \<and>
               elements (runTimeout (handleContainerPointerDown nid e st))
                 = elements (handleContainerPointerDown nid e st)) \<and>
            selectedIds (runTimeouts (Suc (length (timeouts st)))
                           (handleContainerPointerDown nid e st)) = {nid} \<and>
            elements (runTimeouts (Suc (length (timeouts st)))
                        (handleContainerPointerDown nid e st))
              = elements (handleContainerPointerDown nid e st) \<and>
            timeouts (runTimeouts (Suc (length (timeouts st)))
                        (handleContainerPointerDown nid e st)) = [] \<and>
            pointerMoves heights es (handleContainerPointerDown nid e st)
              = handleContainerPointerDown nid e st) \<and>
         (button e \<noteq> 0 \<longrightarrow> handleContainerPointerDown nid e st = st) \<and>
         (tool st = TEXT_TOOL \<and> targetIsContentEditable e \<longrightarrow>
            handleContainerPointerDown nid e st = st) \<and>
         (timeouts s = nid # rest \<longrightarrow>
            selectedIds (runTimeout s) = {nid} \<and> elements (runTimeout s) = elements s \<and>
            timeouts (runTimeout s) = rest)"
proof -
  let ?st' = "handleContainerPointerDown nid e st"
  have primary: "elements ?st' = elements st @ [placedElement (tool st) nid (getMousePos st e)] \<and>
      el_id (placedElement (tool st) nid (getMousePos st e)) = nid \<and>
      el_x (placedElement (tool st) nid (getMousePos st e)) = pt_x (getMousePos st e) \<and>
      el_y (placedElement (tool st) nid (getMousePos st e)) = pt_y (getMousePos st e) \<and>
      mode (interaction ?st') = IDLE \<and>
      selectedIds ?st' = selectedIds st \<and>
      timeouts ?st' = timeouts st @ [nid] \<and>
      (timeouts st = [] \<longrightarrow>
         selectedIds (runTimeout ?st') = {nid} \<and> elements (runTimeout ?st') = elements ?st') \<and>
      selectedIds (runTimeouts (Suc (length (timeouts st))) ?st') = {nid} \<and>
      elements (runTimeouts (Suc (length (timeouts st))) ?st') = elements ?st' \<and>
      timeouts (runTimeouts (Suc (length (timeouts st))) ?st') = [] \<and>
      pointerMoves heights es ?st' = ?st'"
    if b: "button e = 0" and c: "\<not> (tool st = TEXT_TOOL \<and> targetIsContentEditable e)"
  proof -
    note down = place_down [OF assms b c, of nid]
    have m: "mode (interaction ?st') = IDLE"
      by (simp add: down session_def)
    have el: "el_id (placedElement (tool st) nid (getMousePos st e)) = nid \<and>
         el_x (placedElement (tool st) nid (getMousePos st e)) = pt_x (getMousePos st e) \<and>
         el_y (placedElement (tool st) nid (getMousePos st e)) = pt_y (getMousePos st e)"
      by (simp add: placedElement_def newCode_def newExpandable_def newText_def blankElement_def)
    have rest: "elements ?st' = elements st @ [placedElement (tool st) nid (getMousePos st e)] \<and>
         selectedIds ?st' = selectedIds st \<and> timeouts ?st' = timeouts st @ [nid]"
      by (simp add: down)
    then have tq: "timeouts ?st' = timeouts st @ [nid]" by simp
    have tm: "timeouts st = [] \<longrightarrow>
          selectedIds (runTimeout ?st') = {nid} \<and> elements (runTimeout ?st') = elements ?st'"
      using tq by (simp add: runTimeout_def)
    from m el tm rest runTimeouts_last [OF tq] pointerMoves_idle [OF m, of heights es]
    show ?thesis by (simp only: simp_thms)
  qed
  have other: "button e \<noteq> 0 \<longrightarrow> ?st' = st"
    using place_other_button [OF assms] by blast
  have editable: "tool st = TEXT_TOOL \<and> targetIsContentEditable e \<longrightarrow> ?st' = st"
    using place_on_editable by blast
  have cb: "timeouts s = nid # rest \<longrightarrow>
      selectedIds (runTimeout s) = {nid} \<and> elements (runTimeout s) = elements s \<and>
      timeouts (runTimeout s) = rest"
    using runTimeout_head by blast
  from primary other editable cb show ?thesis by blast
qed

text \<open>
  A text block placed at \<open>(300, 300)\<close> while two squares are selected; with the code
  tool and one callback pending, a press of button \<open>2\<close> changes nothing, and a press of
  button \<open>0\<close> places a code block, which is selected after the second callback.
\<close>

theorem click_to_place_witness:
  "tool textPlacing = TEXT_TOOL \<and> button (pointerAt 300 300) = 0 \<and>
   \<not> targetIsContentEditable (pointerAt 300 300) \<and> timeouts textPlacing = [] \<and>
   elements (handleContainerPointerDown ''n'' (pointerAt 300 300) textPlacing)
     = elements textPlacing @ [newText ''n'' 300 300] \<and>
   mode (interaction (handleContainerPointerDown ''n'' (pointerAt 300 300) textPlacing)) = IDLE \<and>
   selectedIds (runTimeout (handleContainerPointerDown ''n'' (pointerAt 300 300) textPlacing)) = {''n''} \<and>
   pointerMoves (\<lambda>i. None) [pointerAt 310 320, pointerAt 400 400]
       (handleContainerPointerDown ''n'' (pointerAt 300 300) textPlacing)
     = handleContainerPointerDown ''n'' (pointerAt 300 300) textPlacing \<and>
   tool codePlacing = CODE_TOOL \<and> timeouts codePlacing = [''m''] \<and>
   button ((pointerAt 300 300) \<lparr> button := 2 \<rparr>) \<noteq> 0 \<and>
   handleContainerPointerDown ''n'' ((pointerAt 300 300) \<lparr> button := 2 \<rparr>) codePlacing
     = codePlacing \<and>
   elements (handleContainerPointerDown ''n'' (pointerAt 300 300) codePlacing)
     = elements codePlacing @ [newCode ''n'' 300 300] \<and>
   selectedIds (runTimeout (handleContainerPointerDown ''n'' (pointerAt 300 300) codePlacing))
     = {''m''} \<and>
   selectedIds (runTimeouts (Suc (Suc 0))
                  (handleContainerPointerDown ''n'' (pointerAt 300 300) codePlacing)) = {''n''}"
proof -
  have h: "tool textPlacing = TEXT_TOOL" "button (pointerAt 300 300) = 0"
    "\<not> targetIsContentEditable (pointerAt 300 300)" "timeouts textPlacing = []"
    by (simp_all add: textPlacing_def twoSquares_def emptyEditor_def pointerAt_def)
  have p: "placedElement (tool textPlacing) ''n'' (getMousePos textPlacing (pointerAt 300 300))
      = newText ''n'' 300 300"
    by (simp add: placedElement_def getMousePos_def textPlacing_def twoSquares_def emptyEditor_def
        pointerAt_def)
  have hc: "tool codePlacing = CODE_TOOL" "timeouts codePlacing = [''m'']"
    "button ((pointerAt 300 300) \<lparr> button := 2 \<rparr>) \<noteq> 0"
    by (simp_all add: codePlacing_def twoSquares_def emptyEditor_def pointerAt_def)
  have pc: "placedElement (tool codePlacing) ''n'' (getMousePos codePlacing (pointerAt 300 300))
      = newCode ''n'' 300 300"
    by (simp add: placedElement_def getMousePos_def codePlacing_def twoSquares_def emptyEditor_def
        pointerAt_def)
  from click_to_place [of textPlacing "pointerAt 300 300" "''n''" "\<lambda>i. None"
      "[pointerAt 310 320, pointerAt 400 400]" textPlacing "[]"] h p
  have placedText: "elements (handleContainerPointerDown ''n'' (pointerAt 300 300) textPlacing)
       = elements textPlacing @ [newText ''n'' 300 300] \<and>
     mode (interaction (handleContainerPointerDown ''n'' (pointerAt 300 300) textPlacing)) = IDLE \<and>
     selectedIds (runTimeout (handleContainerPointerDown ''n'' (pointerAt 300 300) textPlacing)) = {''n''} \<and>
     pointerMoves (\<lambda>i. None) [pointerAt 310 320, pointerAt 400 400]
         (handleContainerPointerDown ''n'' (pointerAt 300 300) textPlacing)
       = handleContainerPointerDown ''n'' (pointerAt 300 300) textPlacing"
    by simp
  from click_to_place [of codePlacing "(pointerAt 300 300) \<lparr> button := 2 \<rparr>" "''n''"
      "\<lambda>i. None" "[]" codePlacing "[]"] hc
  have otherButton: "handleContainerPointerDown ''n'' ((pointerAt 300 300) \<lparr> button := 2 \<rparr>) codePlacing
      = codePlacing"
    by simp
  from click_to_place [of codePlacing "pointerAt 300 300" "''n''" "\<lambda>i. None" "[]"
      codePlacing "[]"] hc(1,2) h(2) pc
  have placedCode: "elements (handleContainerPointerDown ''n'' (pointerAt 300 300) codePlacing)
       = elements codePlacing @ [newCode ''n'' 300 300] \<and>
     timeouts (handleContainerPointerDown ''n'' (pointerAt 300 300) codePlacing) = [''m'', ''n''] \<and>
     selectedIds (runTimeouts (Suc (Suc 0))
                    (handleContainerPointerDown ''n'' (pointerAt 300 300) codePlacing)) = {''n''}"
    by simp
  then have first: "selectedIds (runTimeout (handleContainerPointerDown ''n'' (pointerAt 300 300)
      codePlacing)) = {''m''}"
    by (simp add: runTimeout_def)
  from h placedText hc otherButton placedCode first show ?thesis by simp
qed

section \<open>The eraser\<close>

lemma minOf_Min: "minOf v vs = Min (set (v # vs))"
proof -
  have "fold min vs v = Min (set (v # vs))"
    by (rule Min.set_eq_fold [symmetric])
  then show ?thesis by (simp add: minOf_def)
qed

lemma maxOf_Max: "maxOf v vs = Max (set (v # vs))"
proof -
  have "fold max vs v = Max (set (v # vs))"
    by (rule Max.set_eq_fold [symmetric])
  then show ?thesis by (simp add: maxOf_def)
qed

lemma eraserHit_box:
  "el_width el = Some w \<Longrightarrow> el_height el = Some h \<Longrightarrow> w \<noteq> 0 \<Longrightarrow> h \<noteq> 0 \<Longrightarrow>
   eraserHit x y el = (el_x el \<le> x \<and> x \<le> el_x el + w \<and> el_y el \<le> y \<and> y \<le> el_y el + h)"
  by (simp add: eraserHit_def truthy_def)

lemma eraserHit_path:
  "\<not> (truthy (el_width el) \<and> truthy (el_height el)) \<Longrightarrow> el_type el = PATH \<Longrightarrow>
   el_points el = Some ps \<Longrightarrow> ps \<noteq> [] \<Longrightarrow>
   eraserHit x y el =
     (Min (set (map pt_x ps)) + el_x el \<le> x \<and> x \<le> Max (set (map pt_x ps)) + el_x el \<and>
      Min (set (map pt_y ps)) + el_y el \<le> y \<and> y \<le> Max (set (map pt_y ps)) + el_y el)"
proof -
  assume c: "\<not> (truthy (el_width el) \<and> truthy (el_height el))" and t: "el_type el = PATH"
    and p: "el_points el = Some ps" and ne: "ps \<noteq> []"
  from ne obtain q qs where ps: "ps = q # qs" by (cases ps) auto
  have "eraserHit x y el =
      (minOf (pt_x q) (map pt_x qs) + el_x el \<le> x \<and> x \<le> maxOf (pt_x q) (map pt_x qs) + el_x el \<and>
       minOf (pt_y q) (map pt_y qs) + el_y el \<le> y \<and> y \<le> maxOf (pt_y q) (map pt_y qs) + el_y el)"
    unfolding eraserHit_def using c t p ps by (auto simp add: Let_def)
  then show ?thesis
    unfolding minOf_Min maxOf_Max ps by simp
qed

lemma eraserHit_text:
  "\<not> (truthy (el_width el) \<and> truthy (el_height el)) \<Longrightarrow> el_type el = TEXT \<Longrightarrow>
   eraserHit x y el = (el_x el \<le> x \<and> x \<le> el_x el + 300 \<and> el_y el \<le> y \<and> y \<le> el_y el + 50)"
  unfolding eraserHit_def by (simp only: if_False) simp

lemma eraserHit_none:
  "\<not> (truthy (el_width el) \<and> truthy (el_height el)) \<Longrightarrow> el_type el \<noteq> TEXT \<Longrightarrow>
   el_type el \<noteq> PATH \<or> el_points el = None \<or> el_points el = Some [] \<Longrightarrow>
   \<not> eraserHit x y el"
  by (auto simp add: eraserHit_def)

lemma find_first:
  "find P xs = Some x \<Longrightarrow>
   \<exists>k < length xs. xs ! k = x \<and> P x \<and> (\<forall>j < k. \<not> P (xs ! j))"
  by (auto simp add: find_Some_iff)

lemma filter_distinct_id:
  assumes "distinct (map f xs)" and "k < length xs"
  shows "filter (\<lambda>el. f el \<noteq> f (xs ! k)) xs = take k xs @ drop (Suc k) xs"
proof -
  have xs: "xs = take k xs @ xs ! k # drop (Suc k) xs"
    using assms(2) by (simp add: id_take_nth_drop)
  from assms(1) have d: "distinct (map f (take k xs @ xs ! k # drop (Suc k) xs))"
    using xs by simp
  then have "f (xs ! k) \<notin> f ` set (take k xs)" and "f (xs ! k) \<notin> f ` set (drop (Suc k) xs)"
    by auto
  then have a: "\<forall>el \<in> set (take k xs). f el \<noteq> f (xs ! k)"
    and b: "\<forall>el \<in> set (drop (Suc k) xs). f el \<noteq> f (xs ! k)"
    by (metis imageI)+
  have "filter (\<lambda>el. f el \<noteq> f (xs ! k)) (take k xs @ xs ! k # drop (Suc k) xs)
      = take k xs @ drop (Suc k) xs"
    using a b by (simp add: filter_id_conv)
  with xs show ?thesis by simp
qed

lemma eraserHit_region:
  "eraserHit x y el = (case hitRegion el of None \<Rightarrow> False | Some r \<Rightarrow> inRect r x y)"
proof (cases "truthy (el_width el) \<and> truthy (el_height el)")
  case True
  then obtain w h where wh: "el_width el = Some w" "el_height el = Some h" "w \<noteq> 0" "h \<noteq> 0"
    by (auto simp add: truthy_def split: option.splits)
  then show ?thesis
    by (simp add: eraserHit_box hitRegion_def inRect_def)
next
  case False
  then have hr: "hitRegion el = fallbackRegion el"
    by (auto simp add: hitRegion_def truthy_def split: option.splits)
  show ?thesis
  proof (cases "el_type el = PATH")
    case path: True
    show ?thesis
    proof (cases "el_points el")
      case None
      with False path show ?thesis
        by (simp add: hr fallbackRegion_def eraserHit_none)
    next
      case (Some ps)
      show ?thesis
      proof (cases ps)
        case Nil
        with False path Some show ?thesis
          by (simp add: hr fallbackRegion_def eraserHit_none)
      next
        case (Cons q qs)
        with Some have ne: "el_points el = Some ps" "ps \<noteq> []" by simp_all
        show ?thesis
          unfolding eraserHit_path [OF False path ne] hr
          using path Some Cons
          by (simp add: fallbackRegion_def inRect_def del: Min_insert Max_insert set_simps list.map)
            (simp only: add.commute)
      qed
    qed
  next
    case notpath: False
    show ?thesis
    proof (cases "el_type el = TEXT")
      case True
      with False notpath show ?thesis
        by (simp add: hr fallbackRegion_def eraserHit_text inRect_def)
    next
      case False2: False
      with False notpath show ?thesis
        by (simp add: hr fallbackRegion_def eraserHit_none)
    qed
  qed
qed

lemma erasing_move:
  "mode (interaction st) = ERASING \<Longrightarrow>
   handleContainerPointerMove e st =
     (case find (eraserHit (pt_x (getMousePos st e)) (pt_y (getMousePos st e))) (elements st) of
        Some hit \<Rightarrow> deleteElement (el_id hit) st
      | None \<Rightarrow> st)"
  by (simp add: handleContainerPointerMove_def Let_def)

text \<open>
  Claim C10. On a page whose element ids are distinct, a pointer move in mode
  \<open>ERASING\<close> changes nothing when no element is hit; otherwise it removes the first
  element of the collection that is hit, and only that one, together with its id in the
  selection. So the collection loses at most one element, and the mode stays
  \<open>ERASING\<close>. An element is hit exactly when the pointer lies in its hit region as the
  specification words it. A rectangle whose width or height is \<open>0\<close> has no hit region
  and is still in the collection after the move.
\<close>

theorem eraser_move_deletes_first_hit:
  assumes "mode (interaction st) = ERASING" and "distinct (map el_id (elements st))"
  shows "((\<forall>el \<in> set (elements st).
             \<not> eraserHit (pt_x (getMousePos st e)) (pt_y (getMousePos st e)) el) \<longrightarrow>
            handleContainerPointerMove e st = st) \<and>
         (\<forall>k < length (elements st).
            eraserHit (pt_x (getMousePos st e)) (pt_y (getMousePos st e)) (elements st ! k) \<and>
            (\<forall>j < k. \<not> eraserHit (pt_x (getMousePos st e)) (pt_y (getMousePos st e))
                         (elements st ! j)) \<longrightarrow>
              elements (handleContainerPointerMove e st)
                = take k (elements st) @ drop (Suc k) (elements st) \<and>
              selectedIds (handleContainerPointerMove e st)
                = selectedIds st - {el_id (elements st ! k)}) \<and>
         length (elements st) \<le> Suc (length (elements (handleContainerPointerMove e st))) \<and>
         mode (interaction (handleContainerPointerMove e st)) = ERASING \<and>
         (\<forall>el x y. eraserHit x y el
                    = (case hitRegion el of None \<Rightarrow> False | Some r \<Rightarrow> inRect r x y)) \<and>
         (\<forall>el \<in> set (elements st).
            el_type el = RECTANGLE \<and> (el_width el = Some 0 \<or> el_height el = Some 0) \<longrightarrow>
              hitRegion el = None \<and> el \<in> set (elements (handleContainerPointerMove e st)))"
proof -
  let ?x = "pt_x (getMousePos st e)"
  let ?y = "pt_y (getMousePos st e)"
  let ?els = "elements st"
  let ?st' = "handleContainerPointerMove e st"
  note mv = erasing_move [OF assms(1), of e]
  have hitAt: "elements ?st' = take k ?els @ drop (Suc k) ?els \<and>
      selectedIds ?st' = selectedIds st - {el_id (?els ! k)}"
    if k: "k < length ?els" and h: "eraserHit ?x ?y (?els ! k)"
      and first: "\<forall>j < k. \<not> eraserHit ?x ?y (?els ! j)" for k
  proof -
    from k h first have "find (eraserHit ?x ?y) ?els = Some (?els ! k)"
      by (auto simp add: find_Some_iff)
    then have "?st' = deleteElement (el_id (?els ! k)) st" by (simp add: mv)
    then show ?thesis
      using filter_distinct_id [OF assms(2) k]
      by (simp add: deleteElement_def)
  qed
  have nohit: "(\<forall>el \<in> set ?els. \<not> eraserHit ?x ?y el) \<longrightarrow> ?st' = st"
  proof
    assume "\<forall>el \<in> set ?els. \<not> eraserHit ?x ?y el"
    then have "find (eraserHit ?x ?y) ?els = None" by (simp add: find_None_iff)
    then show "?st' = st" by (simp add: mv)
  qed
  have cases: "?st' = st \<or>
      (\<exists>k < length ?els. eraserHit ?x ?y (?els ! k) \<and>
          elements ?st' = take k ?els @ drop (Suc k) ?els \<and>
          ?st' = deleteElement (el_id (?els ! k)) st)"
  proof (cases "find (eraserHit ?x ?y) ?els")
    case None
    then show ?thesis by (simp add: mv)
  next
    case (Some hit)
    from find_first [OF Some] obtain k where k: "k < length ?els" "?els ! k = hit"
      "eraserHit ?x ?y hit" "\<forall>j < k. \<not> eraserHit ?x ?y (?els ! j)" by blast
    with hitAt [of k] have "elements ?st' = take k ?els @ drop (Suc k) ?els" by simp
    moreover from Some k(2) have "?st' = deleteElement (el_id (?els ! k)) st" by (simp add: mv)
    ultimately show ?thesis using k by blast
  qed
  have len: "length ?els \<le> Suc (length (elements ?st'))"
    using cases by auto
  have md: "mode (interaction ?st') = ERASING"
    using cases assms(1) by (auto simp add: deleteElement_def)
  have region: "\<forall>el x y. eraserHit x y el
                    = (case hitRegion el of None \<Rightarrow> False | Some r \<Rightarrow> inRect r x y)"
    using eraserHit_region by blast
  have flat: "hitRegion el = None \<and> el \<in> set (elements ?st')"
    if el: "el \<in> set ?els" and t: "el_type el = RECTANGLE"
      and z: "el_width el = Some 0 \<or> el_height el = Some 0" for el
  proof -
    from t z have hr: "hitRegion el = None"
      by (auto simp add: hitRegion_def fallbackRegion_def split: option.splits)
    then have no: "\<not> eraserHit x y el" for x y by (simp add: eraserHit_region)
    from cases have "el \<in> set (elements ?st')"
    proof
      assume "?st' = st"
      with el show ?thesis by simp
    next
      assume "\<exists>k < length ?els. eraserHit ?x ?y (?els ! k) \<and>
          elements ?st' = take k ?els @ drop (Suc k) ?els \<and>
          ?st' = deleteElement (el_id (?els ! k)) st"
      then obtain k where k: "k < length ?els" "eraserHit ?x ?y (?els ! k)"
        "?st' = deleteElement (el_id (?els ! k)) st" by blast
      from k(2) no have ne: "el \<noteq> ?els ! k" by auto
      from k(1) have "?els ! k \<in> set ?els" by simp
      with el ne assms(2) have "el_id el \<noteq> el_id (?els ! k)"
        by (auto simp add: distinct_map inj_on_def)
      with el show ?thesis by (simp add: k(3) deleteElement_def)
    qed
    with hr show ?thesis by simp
  qed
  from nohit hitAt len md region flat show ?thesis by blast
qed

lemma erasing_eq:
  "erasing =
     emptyEditor \<lparr> tool := ERASER,
                   elements := [pointA, squareA, squareA \<lparr> el_id := ''b'' \<rparr>],
                   selectedIds := {''a''},
                   interaction := session 0 0 None ERASING \<rparr>"
  by (simp add: erasing_def handleContainerPointerDown_def emptyEditor_def pointerAt_def
      getMousePos_def Let_def)

text \<open>
  At \<open>(15, 15)\<close> both squares are hit and only \<open>a\<close>, the first, is removed; at
  \<open>(50, 50)\<close>, on the zero-size rectangle, nothing is removed.
\<close>

theorem eraser_move_deletes_first_hit_witness:
  "mode (interaction erasing) = ERASING \<and>
   distinct (map el_id (elements erasing)) \<and>
   elements erasing = [pointA, squareA, squareA \<lparr> el_id := ''b'' \<rparr>] \<and>
   eraserHit 15 15 squareA \<and> eraserHit 15 15 (squareA \<lparr> el_id := ''b'' \<rparr>) \<and>
   elements (handleContainerPointerMove (pointerAt 15 15) erasing)
     = [pointA, squareA \<lparr> el_id := ''b'' \<rparr>] \<and>
   selectedIds (handleContainerPointerMove (pointerAt 15 15) erasing) = {} \<and>
   hitRegion pointA = None \<and>
   handleContainerPointerMove (pointerAt 50 50) erasing = erasing"
proof -
  have m: "mode (interaction erasing) = ERASING"
    by (simp add: erasing_eq session_def)
  have els: "elements erasing = [pointA, squareA, squareA \<lparr> el_id := ''b'' \<rparr>]"
    by (simp add: erasing_eq)
  have d: "distinct (map el_id (elements erasing))"
    by (simp add: els pointA_def squareA_def newShape_def blankElement_def)
  have p15: "getMousePos erasing (pointerAt 15 15) = \<lparr> pt_x = 15, pt_y = 15 \<rparr>"
    and p50: "getMousePos erasing (pointerAt 50 50) = \<lparr> pt_x = 50, pt_y = 50 \<rparr>"
    by (simp_all add: getMousePos_def erasing_eq emptyEditor_def pointerAt_def)
  have hz: "\<not> eraserHit x y pointA" for x y
    by (simp add: eraserHit_def truthy_def pointA_def blankElement_def)
  have ha: "eraserHit 15 15 squareA" "eraserHit 15 15 (squareA \<lparr> el_id := ''b'' \<rparr>)"
    "\<not> eraserHit 50 50 squareA" "\<not> eraserHit 50 50 (squareA \<lparr> el_id := ''b'' \<rparr>)"
    by (simp_all add: eraserHit_def truthy_def squareA_def newShape_def blankElement_def)
  note thm15 = eraser_move_deletes_first_hit [OF m d, of "pointerAt 15 15"]
  note thm50 = eraser_move_deletes_first_hit [OF m d, of "pointerAt 50 50"]
  from thm15 have "\<forall>k < length (elements erasing).
            eraserHit (pt_x (getMousePos erasing (pointerAt 15 15)))
              (pt_y (getMousePos erasing (pointerAt 15 15))) (elements erasing ! k) \<and>
            (\<forall>j < k. \<not> eraserHit (pt_x (getMousePos erasing (pointerAt 15 15)))
                         (pt_y (getMousePos erasing (pointerAt 15 15))) (elements erasing ! j)) \<longrightarrow>
              elements (handleContainerPointerMove (pointerAt 15 15) erasing)
                = take k (elements erasing) @ drop (Suc k) (elements erasing) \<and>
              selectedIds (handleContainerPointerMove (pointerAt 15 15) erasing)
                = selectedIds erasing - {el_id (elements erasing ! k)}"
    by blast
  from this [rule_format, of 1] hz ha
  have r15: "elements (handleContainerPointerMove (pointerAt 15 15) erasing)
        = [pointA, squareA \<lparr> el_id := ''b'' \<rparr>] \<and>
      selectedIds (handleContainerPointerMove (pointerAt 15 15) erasing) = {}"
    by (simp add: els p15) (simp add: erasing_eq squareA_def newShape_def blankElement_def)
  from thm50 have "(\<forall>el \<in> set (elements erasing).
             \<not> eraserHit (pt_x (getMousePos erasing (pointerAt 50 50)))
                  (pt_y (getMousePos erasing (pointerAt 50 50))) el) \<longrightarrow>
            handleContainerPointerMove (pointerAt 50 50) erasing = erasing"
    by blast
  with hz ha have r50: "handleContainerPointerMove (pointerAt 50 50) erasing = erasing"
    by (simp add: els p50)
  have hr: "hitRegion pointA = None"
    by (simp add: hitRegion_def fallbackRegion_def pointA_def blankElement_def)
  from m d els ha(1,2) r15 hr r50 show ?thesis by blast
qed

section \<open>The earlier copy of the component\<close>

text \<open>
  In the earlier copy a click with the text tool starts a creation drag: the next move
  gives the text block the size of the drag.
\<close>

lemma earlier_copy_drags_placed_text:
  "mode (interaction (handleContainerPointerDownEarlier ''n'' (pointerAt 300 300) textPlacing))
     = CREATING \<and>
   elements (pointerMove (\<lambda>i. None) (pointerAt 350 320)
              (handleContainerPointerDownEarlier ''n'' (pointerAt 300 300) textPlacing))
     = elements textPlacing @
       [(blankElement ''n'' TEXT 300 300)
          \<lparr> el_content := Some [], el_width := Some 50, el_height := Some 20 \<rparr>]"
  by (simp add: handleContainerPointerDownEarlier_def pointerMove_def handleContainerPointerMove_def
      handleGlobalMove_def createStep_def getMousePos_def textPlacing_def twoSquares_def
      emptyEditor_def pointerAt_def session_def squareA_def newShape_def blankElement_def Let_def)

end
